theory Spec2Isabelle
  imports Complex_Main
begin

section \<open>JavaScript values\<close>

text \<open>
  The TypeScript sources handle values of type \<open>any\<close>: arguments of a tool call, bodies of
  HTTP responses, values thrown by a callback. They are modelled by one datatype of
  dynamic values. A \<open>string\<close> is a list of code units, one \<open>char\<close> per unit, so
  \<open>length\<close>, \<open>take\<close> and \<open>drop\<close> count what \<open>String.prototype.slice\<close> counts; numbers
  are rationals (floating-point rounding, NaN and the infinities are outside the model
  unless written out); \<open>JDate s\<close> is the object \<open>new Date(s)\<close>, kept symbolic;
  \<open>JBuiltin n\<close> is the built-in function or object of that name; an object is the list of
  its own properties in insertion order.
\<close>

datatype jsval =
    JUndefined
  | JNull
  | JBool bool
  | JNum rat
  | JStr string
  | JDate string
  | JBuiltin string
  | JArr "jsval list"
  | JObj "(string \<times> jsval) list"

type_synonym jsobject = "(string \<times> jsval) list"

text \<open>A runtime error of the language, as opposed to an \<open>Error\<close> object built by the code.\<close>

datatype js_exception = TypeError string

text \<open>\<open>ToBoolean\<close>, as used by \<open>if\<close>, \<open>!\<close>, \<open>||\<close> and \<open>&&\<close>.\<close>

fun truthy :: "jsval \<Rightarrow> bool" where
  "truthy JUndefined = False"
| "truthy JNull = False"
| "truthy (JBool b) = b"
| "truthy (JNum n) = (n \<noteq> 0)"
| "truthy (JStr s) = (s \<noteq> [])"
| "truthy (JDate s) = True"
| "truthy (JBuiltin n) = True"
| "truthy (JArr xs) = True"
| "truthy (JObj kvs) = True"

text \<open>
  The properties every plain object inherits from \<open>Object.prototype\<close>: reading one of
  these names from an object that has no own property of the name gives the inherited
  function (for \<open>__proto__\<close> the prototype object), not \<open>undefined\<close>.
\<close>

definition object_prototype :: "(string \<times> jsval) list" where
  "object_prototype =
     [(''constructor'', JBuiltin ''Object''),
      (''__proto__'', JBuiltin ''Object.prototype''),
      (''hasOwnProperty'', JBuiltin ''Object.prototype.hasOwnProperty''),
      (''isPrototypeOf'', JBuiltin ''Object.prototype.isPrototypeOf''),
      (''propertyIsEnumerable'', JBuiltin ''Object.prototype.propertyIsEnumerable''),
      (''toLocaleString'', JBuiltin ''Object.prototype.toLocaleString''),
      (''toString'', JBuiltin ''Object.prototype.toString''),
      (''valueOf'', JBuiltin ''Object.prototype.valueOf''),
      (''__defineGetter__'', JBuiltin ''Object.prototype.__defineGetter__''),
      (''__defineSetter__'', JBuiltin ''Object.prototype.__defineSetter__''),
      (''__lookupGetter__'', JBuiltin ''Object.prototype.__lookupGetter__''),
      (''__lookupSetter__'', JBuiltin ''Object.prototype.__lookupSetter__'')]"

text \<open>
  \<open>o[name]\<close> on a plain object for a name that comes from the data (a parameter name, a
  key of a schema): the own property, else the inherited one, else \<open>undefined\<close>. And
  \<open>name in o\<close>.
\<close>

definition prop_get :: "jsobject \<Rightarrow> string \<Rightarrow> jsval" where
  "prop_get kvs name =
     (case map_of kvs name of
        Some v \<Rightarrow> v
      | None \<Rightarrow> (case map_of object_prototype name of Some b \<Rightarrow> b | None \<Rightarrow> JUndefined))"

definition has_property :: "jsobject \<Rightarrow> string \<Rightarrow> bool" where
  "has_property kvs name = (name \<in> fst ` set kvs \<or> name \<in> fst ` set object_prototype)"

text \<open>
  \<open>o.k\<close> for one of the fixed keys the code reads (\<open>response\<close>, \<open>message\<close>, \<open>status\<close>,
  \<open>headers\<close>, \<open>data\<close>, \<open>content-type\<close>, \<open>access_token\<close>, \<open>expires_in\<close>, \<open>Authorization\<close>,
  ...), none of which is an inherited name: the own property, \<open>undefined\<close> when there is
  none.
\<close>

definition obj_get :: "jsobject \<Rightarrow> string \<Rightarrow> jsval" where
  "obj_get kvs k = (case map_of kvs k of None \<Rightarrow> JUndefined | Some v \<Rightarrow> v)"

text \<open>
  \<open>v.k\<close> on any value, for the same fixed keys: reading a property of \<open>undefined\<close> or
  \<open>null\<close> throws a TypeError, whose message names the key in single quotes; the keys
  exist on no primitive, array, date or built-in.
\<close>

definition quoted :: "string \<Rightarrow> string" where
  "quoted k = CHR 0x27 # k @ [CHR 0x27]"

fun js_get :: "jsval \<Rightarrow> string \<Rightarrow> js_exception + jsval" where
  "js_get JUndefined k =
     Inl (TypeError (''Cannot read properties of undefined (reading '' @ quoted k @ '')''))"
| "js_get JNull k =
     Inl (TypeError (''Cannot read properties of null (reading '' @ quoted k @ '')''))"
| "js_get (JObj kvs) k = Inr (obj_get kvs k)"
| "js_get v k = Inr JUndefined"

text \<open>\<open>v?.k\<close>: \<open>undefined\<close> instead of the TypeError.\<close>

fun js_get_opt :: "jsval \<Rightarrow> string \<Rightarrow> jsval" where
  "js_get_opt (JObj kvs) k = obj_get kvs k"
| "js_get_opt v k = JUndefined"

text \<open>\<open>a || b\<close> and \<open>a ?? b\<close>.\<close>

definition js_or :: "jsval \<Rightarrow> jsval \<Rightarrow> jsval" where
  "js_or a b = (if truthy a then a else b)"

definition js_nullish :: "jsval \<Rightarrow> jsval \<Rightarrow> jsval" where
  "js_nullish a b = (if a = JUndefined \<or> a = JNull then b else a)"

text \<open>\<open>s.startsWith(p)\<close> on strings.\<close>

definition startsWith :: "string \<Rightarrow> string \<Rightarrow> bool" where
  "startsWith s p = (take (length p) s = p)"


section \<open>OpenAPI schema and parameter objects\<close>

text \<open>
  \<open>OpenAPIV3.SchemaObject\<close>, with the fields \<open>openAPISchemaToZod\<close> destructures and the
  \<open>items\<close> of an array schema. Every field is optional in the source type.
\<close>

datatype schema = Schema
  (s_description: "string option")
  (s_title: "string option")
  (s_type: "string option")
  (s_properties: "(string \<times> schema) list option")
  (s_required: "string list option")
  (s_minimum: "rat option")
  (s_maximum: "rat option")
  (s_enum: "jsval list option")
  (s_format: "string option")
  (s_items: "schema option")

text \<open>\<open>OpenAPIV3.ParameterObject\<close>: \<open>name\<close>, \<open>in\<close>, \<open>required\<close>, \<open>schema\<close>.\<close>

record ParameterObject =
  p_name :: string
  p_in :: string
  p_required :: "bool option"
  p_schema :: "schema option"


section \<open>Schema bridge: \<open>openAPISchemaToZod\<close>\<close>

text \<open>
  The validators of the zod library that \<open>openAPISchemaToZod\<close> builds, as data: the checks
  of a number schema in the order they were added, the shape of an object schema, the
  element schema of an array, \<open>.optional()\<close>, and \<open>.transform(f)\<close> with its function. The
  \<open>string option\<close> is the description set by \<open>.describe\<close>.
\<close>

datatype zod_check = CheckMin rat | CheckMax rat | CheckInt

datatype zod =
    ZodString "string option"
  | ZodEnum "jsval list" "string option"
  | ZodNumber "zod_check list" "string option"
  | ZodBoolean "string option"
  | ZodObject "(string \<times> zod) list" "string option"
  | ZodArray zod "string option"
  | ZodOptional zod
  | ZodEffects zod "jsval \<Rightarrow> jsval"

text \<open>The \<open>Error\<close> thrown for a type outside the six supported ones.\<close>

datatype bridge_error = UnsupportedType string

text \<open>\<open>a || b\<close> for an optional string \<open>a\<close> whose destructuring default is the empty string.\<close>

definition string_or :: "string option \<Rightarrow> string \<Rightarrow> string" where
  "string_or a b = (case a of Some s \<Rightarrow> if s \<noteq> [] then s else b | None \<Rightarrow> b)"

text \<open>The transform \<open>(val) => new Date(val)\<close>; it is attached to string schemas only, so \<open>val\<close>
  is a string.\<close>

fun new_Date :: "jsval \<Rightarrow> jsval" where
  "new_Date (JStr val) = JDate val"
| "new_Date other = JDate []"

text \<open>
  \<open>openAPISchemaToZod\<close> and \<open>convertPropertiesToZodShape\<close>. The pattern of the first
  equation is the destructuring of \<open>schemaObject\<close>; the \<open>let\<close> applies the defaults. In the
  \<open>array\<close> case the shape is built from \<open>properties\<close> and \<open>required\<close> of the array node itself,
  as in the \<open>object\<close> case: \<open>items\<close> is not among the destructured fields and is not read.
  The properties are folded left to right, so the first unsupported type is the one thrown.
\<close>

function openAPISchemaToZod :: "schema \<Rightarrow> bridge_error + zod"
  and convertPropertiesToZodShape :: "(string \<times> schema) list \<Rightarrow> string list \<Rightarrow> bridge_error + (string \<times> zod) list" where
  "openAPISchemaToZod (Schema description title type properties required minimum maximum enumValues format items) =
     (let schemaDescription = string_or description (string_or title []);
          type = (case type of None \<Rightarrow> ''string'' | Some t \<Rightarrow> t);
          properties = (case properties of None \<Rightarrow> [] | Some ps \<Rightarrow> ps);
          required = (case required of None \<Rightarrow> [] | Some r \<Rightarrow> r)
      in if type = ''object'' then
           (case convertPropertiesToZodShape properties required of
              Inl err \<Rightarrow> Inl err
            | Inr shape \<Rightarrow> Inr (ZodObject shape (Some schemaDescription)))
         else if type = ''array'' then
           (case convertPropertiesToZodShape properties required of
              Inl err \<Rightarrow> Inl err
            | Inr shape \<Rightarrow> Inr (ZodArray (ZodObject shape None) (Some schemaDescription)))
         else if type = ''string'' then
           (let strSchema = (case enumValues of
                               Some values \<Rightarrow> ZodEnum values (Some schemaDescription)
                             | None \<Rightarrow> ZodString (Some schemaDescription))
            in if format = Some ''date-time'' then Inr (ZodEffects strSchema new_Date)
               else Inr strSchema)
         else if type = ''number'' \<or> type = ''integer'' then
           Inr (ZodNumber
                  ((case minimum of Some m \<Rightarrow> [CheckMin m] | None \<Rightarrow> [])
                   @ (case maximum of Some m \<Rightarrow> [CheckMax m] | None \<Rightarrow> [])
                   @ (if type = ''integer'' then [CheckInt] else []))
                  (Some schemaDescription))
         else if type = ''boolean'' then Inr (ZodBoolean (Some schemaDescription))
         else Inl (UnsupportedType type))"
| "convertPropertiesToZodShape [] required = Inr []"
| "convertPropertiesToZodShape ((key, value) # rest) required =
     (case openAPISchemaToZod value of
        Inl err \<Rightarrow> Inl err
      | Inr field \<Rightarrow>
          (case convertPropertiesToZodShape rest required of
             Inl err \<Rightarrow> Inl err
           | Inr shape \<Rightarrow>
               Inr ((key, if key \<in> set required then field else ZodOptional field) # shape)))"
  by pat_completeness auto
termination
  by (relation "measure (\<lambda>x. case x of
                   Inl s \<Rightarrow> size s
                 | Inr (ps, required) \<Rightarrow> size_list (size_prod (\<lambda>k. 0) size) ps)")
     (auto split: option.splits)

section \<open>Validation by a zod schema\<close>

text \<open>
  What \<open>schema.parse(input)\<close> of the library does for the validators above, following the
  library's documentation: \<open>Inl\<close> is a thrown \<open>ZodError\<close> (its first issue), \<open>Inr\<close> the parsed
  output. An object schema accepts plain objects only, parses the keys of its shape and
  drops every other key; a key is in the output when its parsed value is not \<open>undefined\<close>
  or the input has the key. A number that fails \<open>.int()\<close> is reported as an invalid type.
\<close>

datatype zod_issue = InvalidType | InvalidEnumValue | TooSmall | TooBig

fun check_number :: "zod_check list \<Rightarrow> rat \<Rightarrow> zod_issue option" where
  "check_number [] n = None"
| "check_number (CheckMin m # checks) n = (if n < m then Some TooSmall else check_number checks n)"
| "check_number (CheckMax m # checks) n = (if n > m then Some TooBig else check_number checks n)"
| "check_number (CheckInt # checks) n = (if of_int \<lfloor>n\<rfloor> = n then check_number checks n else Some InvalidType)"

function zod_parse :: "zod \<Rightarrow> jsval \<Rightarrow> zod_issue + jsval"
  and parse_shape :: "(string \<times> zod) list \<Rightarrow> jsobject \<Rightarrow> zod_issue + jsobject"
  and parse_items :: "zod \<Rightarrow> jsval list \<Rightarrow> zod_issue + jsval list" where
  "zod_parse (ZodString description) input =
     (case input of JStr s \<Rightarrow> Inr input | other \<Rightarrow> Inl InvalidType)"
| "zod_parse (ZodEnum values description) input =
     (case input of
        JStr s \<Rightarrow> if input \<in> set values then Inr input else Inl InvalidEnumValue
      | other \<Rightarrow> Inl InvalidType)"
| "zod_parse (ZodNumber checks description) input =
     (case input of
        JNum n \<Rightarrow> (case check_number checks n of Some issue \<Rightarrow> Inl issue | None \<Rightarrow> Inr input)
      | other \<Rightarrow> Inl InvalidType)"
| "zod_parse (ZodBoolean description) input =
     (case input of JBool b \<Rightarrow> Inr input | other \<Rightarrow> Inl InvalidType)"
| "zod_parse (ZodObject shape description) input =
     (case input of
        JObj kvs \<Rightarrow> (case parse_shape shape kvs of Inl issue \<Rightarrow> Inl issue | Inr out \<Rightarrow> Inr (JObj out))
      | other \<Rightarrow> Inl InvalidType)"
| "zod_parse (ZodArray element description) input =
     (case input of
        JArr xs \<Rightarrow> (case parse_items element xs of Inl issue \<Rightarrow> Inl issue | Inr out \<Rightarrow> Inr (JArr out))
      | other \<Rightarrow> Inl InvalidType)"
| "zod_parse (ZodOptional inner) input =
     (if input = JUndefined then Inr JUndefined else zod_parse inner input)"
| "zod_parse (ZodEffects inner transform) input =
     (case zod_parse inner input of Inl issue \<Rightarrow> Inl issue | Inr val \<Rightarrow> Inr (transform val))"
| "parse_shape [] kvs = Inr []"
| "parse_shape ((key, field) # rest) kvs =
     (case zod_parse field (prop_get kvs key) of
        Inl issue \<Rightarrow> Inl issue
      | Inr val \<Rightarrow>
          (case parse_shape rest kvs of
             Inl issue \<Rightarrow> Inl issue
           | Inr out \<Rightarrow>
               Inr (if val \<noteq> JUndefined \<or> has_property kvs key then (key, val) # out else out)))"
| "parse_items element [] = Inr []"
| "parse_items element (x # xs) =
     (case zod_parse element x of
        Inl issue \<Rightarrow> Inl issue
      | Inr val \<Rightarrow>
          (case parse_items element xs of Inl issue \<Rightarrow> Inl issue | Inr out \<Rightarrow> Inr (val # out)))"
  by pat_completeness auto
termination
  by (relation "inv_image (less_than <*lex*> less_than) (\<lambda>x. case x of
                   Inl (z, input) \<Rightarrow> (2 * size z, 0)
                 | Inr (Inl (shape, kvs)) \<Rightarrow> (2 * size_list (size_prod (\<lambda>k. 0) size) shape + 1, 0)
                 | Inr (Inr (element, xs)) \<Rightarrow> (2 * size element + 1, length xs))")
     auto


text \<open>
  The \<open>date-time\<close> production of RFC 3339, the profile of ISO 8601 for timestamps, without
  range checks on the fields: \<open>dddd-dd-ddTdd:dd:dd\<close>, an optional fraction, and \<open>Z\<close> or a
  numeric offset. In a template \<open>d\<close> stands for a digit, any other character for itself.
\<close>

definition is_digit :: "char \<Rightarrow> bool" where
  "is_digit c = (48 \<le> (of_char c :: nat) \<and> (of_char c :: nat) \<le> 57)"

fun matches_template :: "string \<Rightarrow> string \<Rightarrow> bool" where
  "matches_template [] [] = True"
| "matches_template (t # ts) (c # cs) =
     ((if t = CHR ''d'' then is_digit c else c = t) \<and> matches_template ts cs)"
| "matches_template ts cs = False"

definition iso8601_zone :: "string \<Rightarrow> bool" where
  "iso8601_zone z = (z = ''Z'' \<or> matches_template ''+dd:dd'' z \<or> matches_template ''-dd:dd'' z)"

definition iso8601_date_time :: "string \<Rightarrow> bool" where
  "iso8601_date_time s =
     (matches_template ''dddd-dd-ddTdd:dd:dd'' (take 19 s)
      \<and> (case drop 19 s of
            c # rest \<Rightarrow>
              if c = CHR ''.''
              then takeWhile is_digit rest \<noteq> [] \<and> iso8601_zone (dropWhile is_digit rest)
              else iso8601_zone (c # rest)
          | [] \<Rightarrow> False))"

definition example_date_time_schema :: schema where
  "example_date_time_schema =
     Schema (Some ''A date-time field'') None (Some ''string'') None None None None None
       (Some ''date-time'') None"

definition example_item_schema :: schema where
  "example_item_schema =
     Schema None None (Some ''object'')
       (Some [(''name'', Schema None None (Some ''string'') None None None None None None None)])
       (Some [''name'']) None None None None None"

definition example_array_schema :: schema where
  "example_array_schema =
     Schema (Some ''An array of objects'') None (Some ''array'') None None None None None None
       (Some example_item_schema)"

text \<open>Validation with the bridged schema: building the validator may throw, parsing may fail.\<close>

definition bridged_parse :: "schema \<Rightarrow> jsval \<Rightarrow> bridge_error + (zod_issue + jsval)" where
  "bridged_parse s input =
     (case openAPISchemaToZod s of Inl err \<Rightarrow> Inl err | Inr z \<Rightarrow> Inr (zod_parse z input))"


section \<open>Parameter codec: \<open>unifiedArgumentsToParametersArray\<close>\<close>

text \<open>One element of the \<open>params\<close> array handed to the operation callback.\<close>

record ParamEntry =
  e_name :: string
  e_in :: string
  e_value :: jsval

record CallArguments =
  c_params :: "ParamEntry list"
  c_body :: jsval

text \<open>
  The \<open>for (const param of params)\<close> loop, with its two mutable variables \<open>bodyParam\<close> and
  \<open>otherParams\<close> as the accumulator.
\<close>

fun arguments_loop ::
  "jsobject \<Rightarrow> ParameterObject list \<Rightarrow> jsval \<times> ParamEntry list \<Rightarrow> jsval \<times> ParamEntry list" where
  "arguments_loop args [] acc = acc"
| "arguments_loop args (param # rest) (bodyParam, otherParams) =
     (if prop_get args (p_name param) = JUndefined
      then arguments_loop args rest (bodyParam, otherParams)
      else if p_in param = ''body''
      then arguments_loop args rest (prop_get args (p_name param), otherParams)
      else arguments_loop args rest
             (bodyParam,
              otherParams @ [\<lparr>e_name = p_name param, e_in = p_in param,
                              e_value = prop_get args (p_name param)\<rparr>]))"

text \<open>The parameter \<open>params\<close> has the default \<open>[]\<close>, taken when the caller passes \<open>undefined\<close>.\<close>

definition unifiedArgumentsToParametersArray ::
  "jsobject \<Rightarrow> ParameterObject list option \<Rightarrow> CallArguments" where
  "unifiedArgumentsToParametersArray args params =
     (case arguments_loop args (case params of None \<Rightarrow> [] | Some ps \<Rightarrow> ps) (JUndefined, []) of
        (bodyParam, otherParams) \<Rightarrow> \<lparr>c_params = otherParams, c_body = bodyParam\<rparr>)"

text \<open>
  The result of the loop in closed form. A parameter is read as provided when
  \<open>args[name]\<close> is not \<open>undefined\<close>; the entries are the non-body parameters so read, in
  declaration order; the body is the value read for the last such body parameter,
  \<open>undefined\<close> when there is none.
\<close>

definition provided :: "jsobject \<Rightarrow> ParameterObject \<Rightarrow> bool" where
  "provided args p = (prop_get args (p_name p) \<noteq> JUndefined)"

definition entry_of :: "jsobject \<Rightarrow> ParameterObject \<Rightarrow> ParamEntry" where
  "entry_of args p = \<lparr>e_name = p_name p, e_in = p_in p, e_value = prop_get args (p_name p)\<rparr>"

definition spec_ordered_params :: "jsobject \<Rightarrow> ParameterObject list \<Rightarrow> ParamEntry list" where
  "spec_ordered_params args ps =
     map (entry_of args) (filter (\<lambda>p. provided args p \<and> p_in p \<noteq> ''body'') ps)"

definition spec_body :: "jsobject \<Rightarrow> ParameterObject list \<Rightarrow> jsval" where
  "spec_body args ps =
     (case rev (filter (\<lambda>p. provided args p \<and> p_in p = ''body'') ps) of
        [] \<Rightarrow> JUndefined
      | p # earlier \<Rightarrow> prop_get args (p_name p))"


section \<open>Operation registry: derived operation ids\<close>

text \<open>An operation as \<open>client.api.getOperations()\<close> lists it.\<close>

record Operation =
  op_operationId :: "string option"
  op_description :: "string option"
  op_method :: string
  op_path :: string
  op_parameters :: "ParameterObject list option"

text \<open>The character class \<open>[a-zA-Z0-9_-]\<close> of the regular expression.\<close>

definition id_char :: "char \<Rightarrow> bool" where
  "id_char c =
     (let n = (of_char c :: nat) in
        (97 \<le> n \<and> n \<le> 122) \<or> (65 \<le> n \<and> n \<le> 90) \<or> (48 \<le> n \<and> n \<le> 57)
        \<or> c = CHR ''_'' \<or> c = CHR ''-'')"

text \<open>\<open>s.replaceAll(/[^a-zA-Z0-9_-]/g, "_")\<close>.\<close>

definition replace_non_id :: "string \<Rightarrow> string" where
  "replace_non_id s = map (\<lambda>c. if id_char c then c else CHR ''_'') s"

text \<open>\<open>s.slice(0, n)\<close> and \<open>s.slice(-n)\<close> for a positive \<open>n\<close>.\<close>

definition slice_first :: "nat \<Rightarrow> string \<Rightarrow> string" where
  "slice_first n s = take n s"

definition slice_last :: "nat \<Rightarrow> string \<Rightarrow> string" where
  "slice_last n s = drop (length s - n) s"

text \<open>
  The expression of \<open>getOperations\<close>
  \<^verbatim>\<open>operation.operationId || description?.replaceAll(..)?.slice(0, 64) || `${method}_${path...slice(-55)}`\<close>:
  \<open>||\<close> moves on when its left side is \<open>undefined\<close> or the empty string.
\<close>

definition deriveOperationId :: "Operation \<Rightarrow> string" where
  "deriveOperationId operation =
     (case op_operationId operation of
        Some oid \<Rightarrow>
          if oid \<noteq> [] then oid
          else (case op_description operation of
                  Some d \<Rightarrow>
                    if slice_first 64 (replace_non_id d) \<noteq> []
                    then slice_first 64 (replace_non_id d)
                    else op_method operation @ ''_'' @ slice_last 55 (replace_non_id (op_path operation))
                | None \<Rightarrow>
                    op_method operation @ ''_'' @ slice_last 55 (replace_non_id (op_path operation)))
      | None \<Rightarrow>
          (case op_description operation of
             Some d \<Rightarrow>
               if slice_first 64 (replace_non_id d) \<noteq> []
               then slice_first 64 (replace_non_id d)
               else op_method operation @ ''_'' @ slice_last 55 (replace_non_id (op_path operation))
           | None \<Rightarrow>
               op_method operation @ ''_'' @ slice_last 55 (replace_non_id (op_path operation))))"


text \<open>
  What awaiting a promise gives: the value it resolves with, or the value it rejects with
  (any value can be thrown).
\<close>

datatype outcome = Resolved jsval | Rejected jsval

text \<open>
  \<open>OperationEntry\<close>. The callback is the bound client function; what the HTTP exchange
  answers is not decided by this code, so the callback is a function to an outcome.
\<close>

record OperationEntry =
  oe_parameters :: "ParameterObject list option"
  oe_description :: "string option"
  oe_operationId :: string
  oe_callback :: "ParamEntry list \<Rightarrow> jsval \<Rightarrow> outcome"

text \<open>
  \<open>getOperations\<close>: one entry per operation; \<open>getClientFunction client path method\<close> is
  the argument \<open>clientFunction\<close>.
\<close>

definition getOperations ::
  "(string \<Rightarrow> string \<Rightarrow> ParamEntry list \<Rightarrow> jsval \<Rightarrow> outcome) \<Rightarrow> Operation list \<Rightarrow> OperationEntry list" where
  "getOperations clientFunction operations =
     map (\<lambda>operation.
            \<lparr>oe_parameters = op_parameters operation,
             oe_description = op_description operation,
             oe_operationId = deriveOperationId operation,
             oe_callback = clientFunction (op_path operation) (op_method operation)\<rparr>)
         operations"


section \<open>Tool adapter: \<open>onToolCall\<close>, \<open>getContentObject\<close> and the registered handler\<close>

text \<open>
  \<open>ToolCallResult\<close>. The interface declares a number and a string record, but the fields
  are filled from \<open>response.status\<close>, \<open>response.headers\<close> and \<open>response.data\<close> through
  casts, so each holds whatever value was read.
\<close>

record ToolCallResult =
  statusCode :: jsval
  headers :: jsval
  data :: jsval

text \<open>The \<open>Error\<close> object of a runtime error, as a \<open>catch\<close> clause receives it.\<close>

fun error_object :: "js_exception \<Rightarrow> jsval" where
  "error_object (TypeError m) = JObj [(''message'', JStr m)]"

text \<open>
  The \<open>catch (error: any)\<close> clause of \<open>onToolCall\<close>. With a truthy \<open>error?.response\<close> the
  result is built from that response. Otherwise the argument of \<open>logger.error\<close> reads
  \<open>error.message\<close> without the \<open>?.\<close> guard, which throws when \<open>error\<close> is \<open>undefined\<close>
  or \<open>null\<close>; nothing catches that.
\<close>

definition onToolCall_catch :: "jsval \<Rightarrow> js_exception + ToolCallResult" where
  "onToolCall_catch error =
     (if truthy (js_get_opt error ''response'')
      then Inr \<lparr>statusCode = js_nullish (js_get_opt (js_get_opt error ''response'') ''status'') (JNum 500),
                headers = js_get_opt (js_get_opt error ''response'') ''headers'',
                data = js_get_opt (js_get_opt error ''response'') ''data''\<rparr>
      else (case js_get error ''message'' of
              Inl exn \<Rightarrow> Inl exn
            | Inr message \<Rightarrow>
                Inr \<lparr>statusCode = JNum 500, headers = JObj [], data = js_nullish message error\<rparr>))"

text \<open>
  \<open>onToolCall\<close>. Inside \<open>try\<close>: the codec, the awaited callback, and the reads of
  \<open>response.status\<close>, \<open>response.headers\<close>, \<open>response.data\<close>; the first read throws when the
  callback resolved with \<open>undefined\<close> or \<open>null\<close>, and the \<open>catch\<close> clause receives that error.
\<close>

definition onToolCall :: "jsobject \<Rightarrow> OperationEntry \<Rightarrow> js_exception + ToolCallResult" where
  "onToolCall args entry =
     (case unifiedArgumentsToParametersArray args (oe_parameters entry) of call \<Rightarrow>
        (case oe_callback entry (c_params call) (c_body call) of
           Resolved response \<Rightarrow>
             (case js_get response ''status'' of
                Inl exn \<Rightarrow> onToolCall_catch (error_object exn)
              | Inr status \<Rightarrow>
                  Inr \<lparr>statusCode = status,
                       headers = js_get_opt response ''headers'',
                       data = js_get_opt response ''data''\<rparr>)
         | Rejected error \<Rightarrow> onToolCall_catch error))"

text \<open>One element of \<open>CallToolResult['content']\<close>.\<close>

datatype ContentItem =
    ImageContent jsval string
  | AudioContent jsval string
  | TextContent string string

text \<open>The object \<open>JSON.stringify\<close> receives when it is given a \<open>ToolCallResult\<close>.\<close>

definition result_object :: "ToolCallResult \<Rightarrow> jsval" where
  "result_object result =
     JObj [(''statusCode'', statusCode result), (''headers'', headers result), (''data'', data result)]"

text \<open>
  \<open>headers['content-type'] || headers['Content-Type'] || 'application/json'\<close>. The first
  read throws when \<open>headers\<close> is \<open>undefined\<close> or \<open>null\<close>.
\<close>

definition contentType_of :: "jsval \<Rightarrow> js_exception + jsval" where
  "contentType_of hs =
     (case js_get hs ''content-type'' of
        Inl exn \<Rightarrow> Inl exn
      | Inr lower \<Rightarrow>
          Inr (js_or (js_or lower (js_get_opt hs ''Content-Type'')) (JStr ''application/json'')))"

text \<open>
  \<open>getContentObject\<close>. \<open>JSON.stringify(result, null, 2)\<close> is the library's; it is the
  argument \<open>stringify\<close>. A content type that is not a string has no \<open>startsWith\<close> method,
  and calling it throws.
\<close>

definition getContentObject :: "(jsval \<Rightarrow> string) \<Rightarrow> ToolCallResult \<Rightarrow> js_exception + ContentItem" where
  "getContentObject stringify result =
     (case contentType_of (headers result) of
        Inl exn \<Rightarrow> Inl exn
      | Inr (JStr contentType) \<Rightarrow>
          if startsWith contentType ''image/'' then Inr (ImageContent (data result) contentType)
          else if startsWith contentType ''audio/'' then Inr (AudioContent (data result) contentType)
          else Inr (TextContent (stringify (result_object result)) ''application/json'')
      | Inr other \<Rightarrow> Inl (TypeError ''contentType.startsWith is not a function''))"

text \<open>
  The handler registered by \<open>createToolFromOperationEntry\<close>:
  \<^verbatim>\<open>const result = await onToolCall(args, entry); return { content: [getContentObject(result)] }\<close>.
  It has no \<open>try\<close> of its own.
\<close>

definition tool_content :: "(jsval \<Rightarrow> string) \<Rightarrow> ToolCallResult \<Rightarrow> js_exception + ContentItem list" where
  "tool_content stringify result =
     (case getContentObject stringify result of
        Inl exn \<Rightarrow> Inl exn
      | Inr item \<Rightarrow> Inr [item])"

definition tool_handler ::
  "(jsval \<Rightarrow> string) \<Rightarrow> OperationEntry \<Rightarrow> jsobject \<Rightarrow> js_exception + ContentItem list" where
  "tool_handler stringify entry args =
     (case onToolCall args entry of
        Inl exn \<Rightarrow> Inl exn
      | Inr result \<Rightarrow> tool_content stringify result)"


section \<open>Auth manager: configuration, state and the token request\<close>

datatype AuthType = NONE | API_KEY | BEARER_TOKEN | OAUTH2 | CERTIFICATE | BASIC_AUTH

text \<open>
  The members of \<open>AuthConfig\<close>. \<open>apiKey.key\<close> is declared a string but is filled by a cast
  from a parsed JSON value; \<open>basicAuth.password\<close> is the second element of a split and
  is \<open>undefined\<close> (\<open>None\<close>) when there is none.
\<close>

record ApiKeyConfig =
  ak_key :: jsval
  ak_headerName :: "string option"
  ak_in :: "string option"

record BearerTokenConfig =
  bt_token :: string

record OAuth2Config =
  oa_clientId :: string
  oa_clientSecret :: string
  oa_tokenUrl :: string
  oa_scopes :: "string list option"
  oa_additionalParams :: "(string \<times> string) list option"

record CertificateConfig =
  ce_certPath :: string
  ce_keyPath :: string
  ce_passphrase :: "string option"

record BasicAuthConfig =
  ba_username :: string
  ba_password :: "string option"

record AuthConfig =
  ac_type :: AuthType
  ac_apiKey :: "ApiKeyConfig option"
  ac_bearerToken :: "BearerTokenConfig option"
  ac_oauth2 :: "OAuth2Config option"
  ac_certificate :: "CertificateConfig option"
  ac_basicAuth :: "BasicAuthConfig option"
  ac_refreshToken :: "string option"
  ac_tokenExpiresAt :: "rat option"

text \<open>A JavaScript number that may be NaN.\<close>

datatype jsnum = Num rat | NaN

text \<open>
  \<open>AuthState\<close>. \<open>tokenData\<close> is \<open>null\<close> or the body of the last token response, stored as
  it came; the agent holds the certificate material.
\<close>

record HttpsAgent =
  ag_cert :: string
  ag_key :: string
  ag_passphrase :: "string option"

record AuthState =
  tokenData :: jsval
  tokenExpiresAt :: jsnum
  httpsAgent :: "HttpsAgent option"

text \<open>The arguments of \<open>axios.post(url, params, {headers})\<close>.\<close>

record TokenRequest =
  tr_url :: string
  tr_params :: "(string \<times> string) list"
  tr_headers :: "(string \<times> string) list"

text \<open>
  What the code takes from its platform: the clock (\<open>Date.now()\<close>), the token endpoint
  behind \<open>axios.post\<close>, the base64 encoding of a string's UTF-8 bytes
  (\<open>Buffer.from(s).toString('base64')\<close>), the language's conversions of a value that is
  not a number to a number and of a value that is not a string to a string, and the
  rounding of a real number to the nearest double, which every arithmetic operation of
  the language applies to its exact result.
\<close>

record env =
  env_now :: rat
  env_post :: "TokenRequest \<Rightarrow> outcome"
  env_base64 :: "string \<Rightarrow> string"
  env_ToNumber :: "jsval \<Rightarrow> jsnum"
  env_ToString :: "jsval \<Rightarrow> string"
  env_double :: "rat \<Rightarrow> rat"

definition to_number :: "env \<Rightarrow> jsval \<Rightarrow> jsnum" where
  "to_number E v = (case v of JNum r \<Rightarrow> Num r | other \<Rightarrow> env_ToNumber E other)"

definition to_string :: "env \<Rightarrow> jsval \<Rightarrow> string" where
  "to_string E v = (case v of JStr s \<Rightarrow> s | other \<Rightarrow> env_ToString E other)"

text \<open>\<open>a > b\<close> for a number that may be NaN: false on NaN.\<close>

fun num_gt :: "jsnum \<Rightarrow> rat \<Rightarrow> bool" where
  "num_gt (Num a) b = (a > b)"
| "num_gt NaN b = False"

text \<open>
  \<open>now + (expires_in * 1000) - 30000\<close> in the arithmetic of the language: the product, the
  sum and the difference, each rounded to a double.
\<close>

fun expiry_from :: "env \<Rightarrow> rat \<Rightarrow> jsnum \<Rightarrow> jsnum" where
  "expiry_from E now (Num expires_in) =
     Num (env_double E (env_double E (now + env_double E (expires_in * 1000)) - 30000))"
| "expiry_from E now NaN = NaN"

text \<open>\<open>URLSearchParams\<close>: \<open>append\<close> adds a pair at the end; \<open>set\<close> overwrites the first
  pair of that name and deletes the others, or appends when there is none.\<close>

definition params_append :: "string \<Rightarrow> string \<Rightarrow> (string \<times> string) list \<Rightarrow> (string \<times> string) list" where
  "params_append k v ps = ps @ [(k, v)]"

fun params_set :: "string \<Rightarrow> string \<Rightarrow> (string \<times> string) list \<Rightarrow> (string \<times> string) list" where
  "params_set k v [] = [(k, v)]"
| "params_set k v (p # ps) =
     (if fst p = k then (k, v) # filter (\<lambda>q. fst q \<noteq> k) ps else p # params_set k v ps)"

text \<open>\<open>xs.join(sep)\<close>.\<close>

fun join :: "string \<Rightarrow> string list \<Rightarrow> string" where
  "join sep [] = []"
| "join sep [x] = x"
| "join sep (x # y # ys) = x @ sep @ join sep (y # ys)"

text \<open>
  The form fields and headers \<open>getOAuthToken\<close> builds before it posts. They are computed
  from the configuration alone: \<open>authConfig.oauth2\<close> and \<open>authConfig.refreshToken\<close>.
\<close>

definition token_params :: "AuthConfig \<Rightarrow> OAuth2Config \<Rightarrow> (string \<times> string) list" where
  "token_params authConfig oauth2 =
     (let params0 = params_append ''grant_type'' ''client_credentials'' [];
          params1 = (case oa_scopes oauth2 of
                       Some scopes \<Rightarrow>
                         if scopes \<noteq> [] then params_append ''scope'' (join '' '' scopes) params0
                         else params0
                     | None \<Rightarrow> params0);
          params2 = (case oa_additionalParams oauth2 of
                       Some additional \<Rightarrow> fold (\<lambda>kv ps. params_append (fst kv) (snd kv) ps) additional params1
                     | None \<Rightarrow> params1)
      in (case ac_refreshToken authConfig of
            Some refreshToken \<Rightarrow>
              if refreshToken \<noteq> []
              then params_append ''refresh_token'' refreshToken
                     (params_set ''grant_type'' ''refresh_token'' params2)
              else params2
          | None \<Rightarrow> params2))"

definition token_request :: "env \<Rightarrow> AuthConfig \<Rightarrow> OAuth2Config \<Rightarrow> TokenRequest" where
  "token_request E authConfig oauth2 =
     \<lparr>tr_url = oa_tokenUrl oauth2,
      tr_params = token_params authConfig oauth2,
      tr_headers =
        [(''Content-Type'', ''application/x-www-form-urlencoded''),
         (''Authorization'',
          ''Basic '' @ env_base64 E (oa_clientId oauth2 @ '':'' @ oa_clientSecret oauth2))]\<rparr>"

text \<open>A call of the logger: the level and the message.\<close>

datatype log_level = LogDebug | LogInfo | LogWarn | LogError

text \<open>What one call of \<open>getOAuthToken\<close> leaves: the value returned, the state object and
  the caller's configuration object after the call, the requests posted during the
  call, and the log written during the call.\<close>

record TokenCall =
  tc_result :: jsval
  tc_state :: AuthState
  tc_config :: AuthConfig
  tc_requests :: "TokenRequest list"
  tc_log :: "(log_level \<times> string) list"

text \<open>The log of a call that reaches the \<open>catch\<close> clause, and of one that returns a new token.\<close>

definition failure_log :: "(log_level \<times> string) list" where
  "failure_log =
     [(LogDebug, ''Getting OAuth token''), (LogDebug, ''Requesting new OAuth token''),
      (LogError, ''Failed to obtain OAuth token'')]"

definition success_log :: "(log_level \<times> string) list" where
  "success_log =
     [(LogDebug, ''Getting OAuth token''), (LogDebug, ''Requesting new OAuth token''),
      (LogInfo, ''New OAuth token obtained successfully'')]"

text \<open>
  The statements after the awaited post, still inside \<open>try\<close>. \<open>state.tokenData\<close> is
  assigned first; the read \<open>response.data.expires_in\<close> then throws when the body is
  \<open>undefined\<close> or \<open>null\<close>, and the \<open>catch\<close> clause returns \<open>null\<close> with the assignment made.
  \<open>newAuthConfig = { ...authConfig }\<close> is a new object; the refresh token is written to
  it (here as text), it is not used again, and the caller's object \<open>authConfig\<close> is left as
  it was.
\<close>

definition token_success :: "env \<Rightarrow> AuthConfig \<Rightarrow> AuthState \<Rightarrow> TokenRequest \<Rightarrow> jsval \<Rightarrow> TokenCall" where
  "token_success E authConfig state request body =
     (let state1 = state\<lparr>tokenData := body\<rparr> in
      case js_get body ''expires_in'' of
        Inl exn \<Rightarrow>
          \<lparr>tc_result = JNull, tc_state = state1, tc_config = authConfig, tc_requests = [request],
           tc_log = failure_log\<rparr>
      | Inr expires_in \<Rightarrow>
          (let state2 = (if truthy expires_in
                         then state1\<lparr>tokenExpiresAt := expiry_from E (env_now E) (to_number E expires_in)\<rparr>
                         else state1);
               newAuthConfig = (if truthy (js_get_opt body ''refresh_token'')
                                then authConfig\<lparr>ac_refreshToken := Some (to_string E (js_get_opt body ''refresh_token''))\<rparr>
                                else authConfig)
           in \<lparr>tc_result = js_get_opt (tokenData state2) ''access_token'',
               tc_state = state2, tc_config = authConfig, tc_requests = [request],
               tc_log = success_log\<rparr>))"

text \<open>\<open>getOAuthToken\<close>.\<close>

definition getOAuthToken :: "env \<Rightarrow> AuthConfig \<Rightarrow> AuthState \<Rightarrow> TokenCall" where
  "getOAuthToken E authConfig state =
     (case ac_oauth2 authConfig of
        None \<Rightarrow>
          \<lparr>tc_result = JNull, tc_state = state, tc_config = authConfig, tc_requests = [],
           tc_log = [(LogDebug, ''Getting OAuth token''), (LogError, ''OAuth2 configuration not found'')]\<rparr>
      | Some oauth2 \<Rightarrow>
          if truthy (js_get_opt (tokenData state) ''access_token'')
             \<and> num_gt (tokenExpiresAt state) (env_now E)
          then \<lparr>tc_result = js_get_opt (tokenData state) ''access_token'',
                tc_state = state, tc_config = authConfig, tc_requests = [],
                tc_log = [(LogDebug, ''Getting OAuth token''),
                          (LogDebug, ''Using existing valid OAuth token'')]\<rparr>
          else (case env_post E (token_request E authConfig oauth2) of
                  Rejected error \<Rightarrow>
                    \<lparr>tc_result = JNull, tc_state = state, tc_config = authConfig,
                     tc_requests = [token_request E authConfig oauth2], tc_log = failure_log\<rparr>
                | Resolved response \<Rightarrow>
                    (case js_get response ''data'' of
                       Inl exn \<Rightarrow>
                         \<lparr>tc_result = JNull, tc_state = state, tc_config = authConfig,
                          tc_requests = [token_request E authConfig oauth2], tc_log = failure_log\<rparr>
                     | Inr body \<Rightarrow>
                         token_success E authConfig state (token_request E authConfig oauth2) body)))"

text \<open>What one call of \<open>getAuthHeaders\<close> leaves: the header record, the state, the requests.\<close>

record HeadersCall =
  hc_headers :: jsobject
  hc_state :: AuthState
  hc_requests :: "TokenRequest list"

text \<open>\<open>getAuthHeaders\<close>: the \<open>switch\<close> on \<open>authConfig.type\<close>; a \<open>break\<close> leads to the final
  \<open>return {}\<close>.\<close>

definition getAuthHeaders :: "env \<Rightarrow> AuthConfig \<Rightarrow> AuthState \<Rightarrow> HeadersCall" where
  "getAuthHeaders E authConfig state =
     (case ac_type authConfig of
        API_KEY \<Rightarrow>
          (case ac_apiKey authConfig of
             Some apiKey \<Rightarrow>
               \<lparr>hc_headers =
                  [(case ak_headerName apiKey of
                      Some headerName \<Rightarrow> if headerName \<noteq> [] then headerName else ''X-API-Key''
                    | None \<Rightarrow> ''X-API-Key'',
                    ak_key apiKey)],
                hc_state = state, hc_requests = []\<rparr>
           | None \<Rightarrow> \<lparr>hc_headers = [], hc_state = state, hc_requests = []\<rparr>)
      | BEARER_TOKEN \<Rightarrow>
          (case ac_bearerToken authConfig of
             Some bearerToken \<Rightarrow>
               \<lparr>hc_headers = [(''Authorization'', JStr (''Bearer '' @ bt_token bearerToken))],
                hc_state = state, hc_requests = []\<rparr>
           | None \<Rightarrow> \<lparr>hc_headers = [], hc_state = state, hc_requests = []\<rparr>)
      | OAUTH2 \<Rightarrow>
          (let call = getOAuthToken E authConfig state in
           if truthy (tc_result call)
           then \<lparr>hc_headers = [(''Authorization'', JStr (''Bearer '' @ to_string E (tc_result call)))],
                 hc_state = tc_state call, hc_requests = tc_requests call\<rparr>
           else \<lparr>hc_headers = [], hc_state = tc_state call, hc_requests = tc_requests call\<rparr>)
      | BASIC_AUTH \<Rightarrow>
          (case ac_basicAuth authConfig of
             Some basicAuth \<Rightarrow>
               \<lparr>hc_headers =
                  [(''Authorization'',
                    JStr (''Basic '' @
                          env_base64 E (ba_username basicAuth @ '':'' @
                                        (case ba_password basicAuth of
                                           Some password \<Rightarrow> password
                                         | None \<Rightarrow> ''undefined''))))],
                hc_state = state, hc_requests = []\<rparr>
           | None \<Rightarrow> \<lparr>hc_headers = [], hc_state = state, hc_requests = []\<rparr>)
      | CERTIFICATE \<Rightarrow> \<lparr>hc_headers = [], hc_state = state, hc_requests = []\<rparr>
      | NONE \<Rightarrow> \<lparr>hc_headers = [], hc_state = state, hc_requests = []\<rparr>)"

text \<open>
  A sequence of calls of \<open>getOAuthToken\<close> on one configuration object and one state
  object, each call under its own clock reading and endpoint behaviour: a call receives
  the two objects as the call before left them.
\<close>

fun token_calls :: "env list \<Rightarrow> AuthConfig \<Rightarrow> AuthState \<Rightarrow> TokenCall list" where
  "token_calls [] authConfig state = []"
| "token_calls (E # Es) authConfig state =
     getOAuthToken E authConfig state
       # token_calls Es (tc_config (getOAuthToken E authConfig state))
                        (tc_state (getOAuthToken E authConfig state))"

text \<open>\<open>URLSearchParams.get\<close>: the value of the first pair of that name.\<close>

definition params_get :: "(string \<times> string) list \<Rightarrow> string \<Rightarrow> string option" where
  "params_get ps k = map_of ps k"

text \<open>
  An environment for the examples: the clock reading and the endpoint's answer are given.
  No example below shows a request header or reaches a conversion, so these three
  members are fixed arbitrarily. The rounding is the identity: every number the examples
  compute is an integer below \<open>2^53\<close>, which is a double.
\<close>

definition example_env :: "rat \<Rightarrow> outcome \<Rightarrow> env" where
  "example_env t answer =
     \<lparr>env_now = t, env_post = (\<lambda>request. answer), env_base64 = (\<lambda>s. s),
      env_ToNumber = (\<lambda>v. NaN), env_ToString = (\<lambda>v. []), env_double = (\<lambda>x. x)\<rparr>"

definition example_oauth2_config :: AuthConfig where
  "example_oauth2_config =
     \<lparr>ac_type = OAUTH2, ac_apiKey = None, ac_bearerToken = None,
      ac_oauth2 = Some \<lparr>oa_clientId = ''client123'', oa_clientSecret = ''secret456'',
                         oa_tokenUrl = ''https://auth.example.com/token'',
                         oa_scopes = Some [''read'', ''write''], oa_additionalParams = None\<rparr>,
      ac_certificate = None, ac_basicAuth = None, ac_refreshToken = None,
      ac_tokenExpiresAt = None\<rparr>"

definition example_api_key_config :: AuthConfig where
  "example_api_key_config =
     \<lparr>ac_type = API_KEY,
      ac_apiKey = Some \<lparr>ak_key = JStr ''test-api-key'', ak_headerName = Some ''x-api-key'', ak_in = None\<rparr>,
      ac_bearerToken = None, ac_oauth2 = None, ac_certificate = None, ac_basicAuth = None,
      ac_refreshToken = None, ac_tokenExpiresAt = None\<rparr>"

definition initial_state :: AuthState where
  "initial_state = \<lparr>tokenData = JNull, tokenExpiresAt = Num 0, httpsAgent = None\<rparr>"


text \<open>A state whose token is still valid at 1617235200000, a state whose token has expired by
  then, and a token response with a given body.\<close>

definition example_cached_state :: AuthState where
  "example_cached_state =
     \<lparr>tokenData = JObj [(''access_token'', JStr ''cached-token''), (''expires_in'', JNum 3600)],
      tokenExpiresAt = Num 1617235201000, httpsAgent = None\<rparr>"

definition example_token_response :: "jsval \<Rightarrow> outcome" where
  "example_token_response body = Resolved (JObj [(''status'', JNum 200), (''data'', body)])"

definition example_expired_state :: AuthState where
  "example_expired_state =
     \<lparr>tokenData = JObj [(''access_token'', JStr ''expired-token''), (''expires_in'', JNum 3600)],
      tokenExpiresAt = Num 1617235199000, httpsAgent = None\<rparr>"


section \<open>Auth manager: \<open>createAuthConfigFromEnv\<close>\<close>

text \<open>The variables of \<open>process.env\<close> that the function reads; \<open>None\<close> is an unset variable.\<close>

record process_env =
  OPENAPI_CERT_PATH :: "string option"
  OPENAPI_KEY_PATH :: "string option"
  OPENAPI_CERT_PASSPHRASE :: "string option"
  OPENAPI_OAUTH_CLIENT_ID :: "string option"
  OPENAPI_OAUTH_CLIENT_SECRET :: "string option"
  OPENAPI_OAUTH_TOKEN_URL :: "string option"
  OPENAPI_OAUTH_SCOPES :: "string option"
  OPENAPI_SPEC_HEADERS :: "string option"

text \<open>A variable in a condition: set and not the empty string. \<open>value_of\<close> is its text.\<close>

definition is_set :: "string option \<Rightarrow> bool" where
  "is_set v = (case v of Some s \<Rightarrow> s \<noteq> [] | None \<Rightarrow> False)"

definition value_of :: "string option \<Rightarrow> string" where
  "value_of v = (case v of Some s \<Rightarrow> s | None \<Rightarrow> [])"

text \<open>\<open>s.split(sep)\<close> for a one-character separator: never the empty list.\<close>

fun split_on :: "char \<Rightarrow> string \<Rightarrow> string list" where
  "split_on sep [] = [] # []"
| "split_on sep (c # cs) =
     (if c = sep then [] # split_on sep cs
      else (case split_on sep cs of
              w # ws \<Rightarrow> (c # w) # ws
            | [] \<Rightarrow> [c] # []))"

text \<open>\<open>toLowerCase\<close> on the code units below 256: the letters \<open>A\<close> to \<open>Z\<close> and the capital
  letters of Latin-1 move up by 32.\<close>

definition toLowerCase_char :: "char \<Rightarrow> char" where
  "toLowerCase_char c =
     (let n = (of_char c :: nat) in
      if (65 \<le> n \<and> n \<le> 90) \<or> (192 \<le> n \<and> n \<le> 222 \<and> n \<noteq> 215)
      then char_of (n + 32) else c)"

definition toLowerCase :: "string \<Rightarrow> string" where
  "toLowerCase s = map toLowerCase_char s"

text \<open>\<open>s.includes(sub)\<close>.\<close>

fun str_includes :: "string \<Rightarrow> string \<Rightarrow> bool" where
  "str_includes [] sub = (sub = [])"
| "str_includes (c # cs) sub = (startsWith (c # cs) sub \<or> str_includes cs sub)"

text \<open>
  \<open>Object.entries\<close>: the own properties of an object; for an array or a string the
  indices, written in decimal, with the elements; nothing for the other values.
\<close>

fun decimal :: "nat \<Rightarrow> string" where
  "decimal n = (if n < 10 then [char_of (48 + n)] else decimal (n div 10) @ [char_of (48 + n mod 10)])"

declare decimal.simps [simp del]

fun object_entries :: "jsval \<Rightarrow> (string \<times> jsval) list" where
  "object_entries (JObj kvs) = kvs"
| "object_entries (JArr xs) = zip (map decimal [0..<length xs]) xs"
| "object_entries (JStr s) = zip (map decimal [0..<length s]) (map (\<lambda>c. JStr [c]) s)"
| "object_entries other = []"

text \<open>\<open>authHeader && authHeader.startsWith(prefix)\<close>: a truthy value that is not a string has
  no such method, and the call throws.\<close>

definition starts_with_if_set :: "jsval \<Rightarrow> string \<Rightarrow> js_exception + bool" where
  "starts_with_if_set v prefix =
     (if \<not> truthy v then Inr False
      else (case v of
              JStr s \<Rightarrow> Inr (startsWith s prefix)
            | other \<Rightarrow> Inl (TypeError ''authHeader.startsWith is not a function'')))"

text \<open>An \<open>AuthConfig\<close> literal that sets \<open>type\<close> only.\<close>

definition base_config :: "AuthType \<Rightarrow> AuthConfig" where
  "base_config t =
     \<lparr>ac_type = t, ac_apiKey = None, ac_bearerToken = None, ac_oauth2 = None,
      ac_certificate = None, ac_basicAuth = None, ac_refreshToken = None,
      ac_tokenExpiresAt = None\<rparr>"

text \<open>The predicate of \<open>find\<close> on the header names.\<close>

definition is_api_key_name :: "string \<Rightarrow> bool" where
  "is_api_key_name key =
     (str_includes (toLowerCase key) ''api-key'' \<or> str_includes (toLowerCase key) ''apikey'')"

text \<open>\<open>const [username, password] = decoded.split(':')\<close> for the decoded text after \<open>Basic \<close>;
  the decoding \<open>Buffer.from(text, 'base64').toString()\<close> is the argument \<open>base64_decode\<close>.\<close>

definition basic_auth_config :: "(string \<Rightarrow> string) \<Rightarrow> string \<Rightarrow> AuthConfig" where
  "basic_auth_config base64_decode authHeader =
     (case split_on CHR '':'' (base64_decode (drop 6 authHeader)) of
        username # rest \<Rightarrow>
          (base_config BASIC_AUTH)
            \<lparr>ac_basicAuth := Some \<lparr>ba_username = username,
                                   ba_password = (case rest of password # others \<Rightarrow> Some password
                                                  | [] \<Rightarrow> None)\<rparr>\<rparr>
      | [] \<Rightarrow> base_config BASIC_AUTH)"

text \<open>
  The statements inside \<open>try\<close> after \<open>JSON.parse\<close>: \<open>Inl\<close> when one of them throws,
  \<open>Inr (Some config)\<close> when one returns, \<open>Inr None\<close> when control leaves the block.
\<close>

definition config_from_headers :: "(string \<Rightarrow> string) \<Rightarrow> jsval \<Rightarrow> js_exception + AuthConfig option" where
  "config_from_headers base64_decode parsedHeaders =
     (case js_get parsedHeaders ''Authorization'' of
        Inl exn \<Rightarrow> Inl exn
      | Inr upper \<Rightarrow>
          (let authHeader = js_or upper (js_get_opt parsedHeaders ''authorization'') in
           case starts_with_if_set authHeader ''Bearer '' of
             Inl exn \<Rightarrow> Inl exn
           | Inr True \<Rightarrow>
               Inr (Some ((base_config BEARER_TOKEN)
                            \<lparr>ac_bearerToken := Some \<lparr>bt_token = drop 7 (case authHeader of JStr s \<Rightarrow> s | other \<Rightarrow> [])\<rparr>\<rparr>))
           | Inr False \<Rightarrow>
               (case find (\<lambda>entry. is_api_key_name (fst entry)) (object_entries parsedHeaders) of
                  Some apiKeyHeader \<Rightarrow>
                    Inr (Some ((base_config API_KEY)
                                 \<lparr>ac_apiKey := Some \<lparr>ak_key = snd apiKeyHeader,
                                                      ak_headerName = Some (fst apiKeyHeader),
                                                      ak_in = None\<rparr>\<rparr>))
                | None \<Rightarrow>
                    (case starts_with_if_set authHeader ''Basic '' of
                       Inl exn \<Rightarrow> Inl exn
                     | Inr True \<Rightarrow>
                         Inr (Some (basic_auth_config base64_decode
                                      (case authHeader of JStr s \<Rightarrow> s | other \<Rightarrow> [])))
                     | Inr False \<Rightarrow> Inr None))))"

text \<open>\<open>createAuthConfigFromEnv\<close>; \<open>JSON_parse\<close> gives \<open>None\<close> where \<open>JSON.parse\<close> throws. The \<open>catch\<close>
  clause logs, and control reaches the final \<open>return\<close> of the \<open>none\<close> configuration.\<close>

definition createAuthConfigFromEnv ::
  "(string \<Rightarrow> jsval option) \<Rightarrow> (string \<Rightarrow> string) \<Rightarrow> process_env \<Rightarrow> AuthConfig" where
  "createAuthConfigFromEnv JSON_parse base64_decode env =
     (if is_set (OPENAPI_CERT_PATH env) \<and> is_set (OPENAPI_KEY_PATH env)
      then (base_config CERTIFICATE)
             \<lparr>ac_certificate := Some \<lparr>ce_certPath = value_of (OPENAPI_CERT_PATH env),
                                      ce_keyPath = value_of (OPENAPI_KEY_PATH env),
                                      ce_passphrase = OPENAPI_CERT_PASSPHRASE env\<rparr>\<rparr>
      else if is_set (OPENAPI_OAUTH_CLIENT_ID env) \<and> is_set (OPENAPI_OAUTH_CLIENT_SECRET env)
              \<and> is_set (OPENAPI_OAUTH_TOKEN_URL env)
      then (base_config OAUTH2)
             \<lparr>ac_oauth2 := Some \<lparr>oa_clientId = value_of (OPENAPI_OAUTH_CLIENT_ID env),
                                 oa_clientSecret = value_of (OPENAPI_OAUTH_CLIENT_SECRET env),
                                 oa_tokenUrl = value_of (OPENAPI_OAUTH_TOKEN_URL env),
                                 oa_scopes = map_option (split_on CHR '','') (OPENAPI_OAUTH_SCOPES env),
                                 oa_additionalParams = None\<rparr>\<rparr>
      else if is_set (OPENAPI_SPEC_HEADERS env)
      then (case JSON_parse (value_of (OPENAPI_SPEC_HEADERS env)) of
              None \<Rightarrow> base_config NONE
            | Some parsedHeaders \<Rightarrow>
                (case config_from_headers base64_decode parsedHeaders of
                   Inl exn \<Rightarrow> base_config NONE
                 | Inr (Some config) \<Rightarrow> config
                 | Inr None \<Rightarrow> base_config NONE))
      else base_config NONE)"

text \<open>
  The precedence as the specification words it. The header record is the parsed JSON
  when the variable is set and parses to an object; the Authorization header is the
  \<open>Authorization\<close> entry, else the \<open>authorization\<close> entry, when it is a string. Decoded
  credentials \<open>username:password\<close> are read as in HTTP Basic authentication: the user
  name is the text before the first colon, the password all the text after it; without
  a colon there is no password.
\<close>

definition header_record :: "(string \<Rightarrow> jsval option) \<Rightarrow> process_env \<Rightarrow> jsobject option" where
  "header_record JSON_parse env =
     (if is_set (OPENAPI_SPEC_HEADERS env)
      then (case JSON_parse (value_of (OPENAPI_SPEC_HEADERS env)) of
              Some (JObj hs) \<Rightarrow> Some hs
            | other \<Rightarrow> None)
      else None)"

definition authorization_header :: "jsobject \<Rightarrow> string option" where
  "authorization_header hs =
     (case js_or (obj_get hs ''Authorization'') (obj_get hs ''authorization'') of
        JStr s \<Rightarrow> Some s
      | other \<Rightarrow> None)"

definition spec_basic_auth :: "(string \<Rightarrow> string) \<Rightarrow> string \<Rightarrow> AuthConfig" where
  "spec_basic_auth base64_decode authHeader =
     (base_config BASIC_AUTH)
       \<lparr>ac_basicAuth :=
          Some \<lparr>ba_username = takeWhile (\<lambda>c. c \<noteq> CHR '':'') (base64_decode (drop 6 authHeader)),
                ba_password =
                  (if CHR '':'' \<in> set (base64_decode (drop 6 authHeader))
                   then Some (drop 1 (dropWhile (\<lambda>c. c \<noteq> CHR '':'')
                                        (base64_decode (drop 6 authHeader))))
                   else None)\<rparr>\<rparr>"

definition spec_auth_config ::
  "(string \<Rightarrow> jsval option) \<Rightarrow> (string \<Rightarrow> string) \<Rightarrow> process_env \<Rightarrow> AuthConfig" where
  "spec_auth_config JSON_parse base64_decode env =
     (if is_set (OPENAPI_CERT_PATH env) \<and> is_set (OPENAPI_KEY_PATH env)
      then (base_config CERTIFICATE)
             \<lparr>ac_certificate := Some \<lparr>ce_certPath = value_of (OPENAPI_CERT_PATH env),
                                      ce_keyPath = value_of (OPENAPI_KEY_PATH env),
                                      ce_passphrase = OPENAPI_CERT_PASSPHRASE env\<rparr>\<rparr>
      else if is_set (OPENAPI_OAUTH_CLIENT_ID env) \<and> is_set (OPENAPI_OAUTH_CLIENT_SECRET env)
              \<and> is_set (OPENAPI_OAUTH_TOKEN_URL env)
      then (base_config OAUTH2)
             \<lparr>ac_oauth2 := Some \<lparr>oa_clientId = value_of (OPENAPI_OAUTH_CLIENT_ID env),
                                 oa_clientSecret = value_of (OPENAPI_OAUTH_CLIENT_SECRET env),
                                 oa_tokenUrl = value_of (OPENAPI_OAUTH_TOKEN_URL env),
                                 oa_scopes = map_option (split_on CHR '','') (OPENAPI_OAUTH_SCOPES env),
                                 oa_additionalParams = None\<rparr>\<rparr>
      else (case header_record JSON_parse env of
              None \<Rightarrow> base_config NONE
            | Some hs \<Rightarrow>
                if startsWith (value_of (authorization_header hs)) ''Bearer ''
                then (base_config BEARER_TOKEN)
                       \<lparr>ac_bearerToken := Some \<lparr>bt_token = drop 7 (value_of (authorization_header hs))\<rparr>\<rparr>
                else (case find (\<lambda>entry. is_api_key_name (fst entry)) hs of
                        Some (name, val) \<Rightarrow>
                          (base_config API_KEY)
                            \<lparr>ac_apiKey := Some \<lparr>ak_key = val, ak_headerName = Some name, ak_in = None\<rparr>\<rparr>
                      | None \<Rightarrow>
                          if startsWith (value_of (authorization_header hs)) ''Basic ''
                          then spec_basic_auth base64_decode (value_of (authorization_header hs))
                          else base_config NONE)))"

text \<open>For the examples: \<open>JSON.parse\<close> and the base64 decoding on the texts the examples use.\<close>

definition example_JSON_parse :: "string \<Rightarrow> jsval option" where
  \<open>example_JSON_parse text =
     map_of
       [(''{"Authorization":"Bearer abc123"}'', JObj [(''Authorization'', JStr ''Bearer abc123'')]),
        (''{"X-API-Key":"test-api-key","Authorization":"Basic dXNlcjpwYXNz"}'',
         JObj [(''X-API-Key'', JStr ''test-api-key''), (''Authorization'', JStr ''Basic dXNlcjpwYXNz'')]),
        (''{"authorization":"Basic dXNlcjpwYXNz"}'', JObj [(''authorization'', JStr ''Basic dXNlcjpwYXNz'')]),
        (''{"Accept":"text/plain"}'', JObj [(''Accept'', JStr ''text/plain'')]),
        (''{"Authorization":123,"X-API-Key":"test-api-key"}'',
         JObj [(''Authorization'', JNum 123), (''X-API-Key'', JStr ''test-api-key'')]),
        (''{"Authorization":"Basic dXNlcjpwYTpzcw=="}'',
         JObj [(''Authorization'', JStr ''Basic dXNlcjpwYTpzcw=='')]),
        (''null'', JNull)]
       text\<close>

definition example_base64_decode :: "string \<Rightarrow> string" where
  "example_base64_decode text =
     (if text = ''dXNlcjpwYXNz'' then ''user:pass''
      else if text = ''dXNlcjpwYTpzcw=='' then ''user:pa:ss''
      else [])"

definition empty_env :: process_env where
  "empty_env =
     \<lparr>OPENAPI_CERT_PATH = None, OPENAPI_KEY_PATH = None, OPENAPI_CERT_PASSPHRASE = None,
      OPENAPI_OAUTH_CLIENT_ID = None, OPENAPI_OAUTH_CLIENT_SECRET = None,
      OPENAPI_OAUTH_TOKEN_URL = None, OPENAPI_OAUTH_SCOPES = None, OPENAPI_SPEC_HEADERS = None\<rparr>"

definition headers_env :: "string \<Rightarrow> process_env" where
  "headers_env text = empty_env\<lparr>OPENAPI_SPEC_HEADERS := Some text\<rparr>"


section \<open>Properties of the parameter codec\<close>

lemma arguments_loop_spec:
  "arguments_loop args ps (b, os) =
     ((case rev (filter (\<lambda>p. provided args p \<and> p_in p = ''body'') ps) of
         [] \<Rightarrow> b
       | p # earlier \<Rightarrow> prop_get args (p_name p)),
      os @ spec_ordered_params args ps)"
proof (induction ps arbitrary: b os)
  case Nil
  show ?case by (simp add: spec_ordered_params_def)
next
  case (Cons p ps)
  show ?case
    by (simp add: Cons.IH provided_def spec_ordered_params_def entry_of_def split: list.splits)
qed

text \<open>
  The loop in closed form, for every argument object and parameter list: the entries are
  the non-body parameters whose read \<open>args[name]\<close> is not \<open>undefined\<close>, in declaration
  order, and the body is the value read for the last such body parameter.
\<close>

lemma codec_closed_form:
  "unifiedArgumentsToParametersArray args params =
     \<lparr>c_params = spec_ordered_params args (case params of None \<Rightarrow> [] | Some ps \<Rightarrow> ps),
      c_body = spec_body args (case params of None \<Rightarrow> [] | Some ps \<Rightarrow> ps)\<rparr>"
  by (simp add: unifiedArgumentsToParametersArray_def arguments_loop_spec spec_body_def)

text \<open>
  For a parameter whose name is not an inherited one, and arguments that hold no
  \<open>undefined\<close>, the read is not \<open>undefined\<close> exactly when the arguments have the name.
\<close>

lemma provided_iff_key:
  assumes "JUndefined \<notin> snd ` set args"
    and "p_name p \<notin> fst ` set object_prototype"
  shows "provided args p \<longleftrightarrow> p_name p \<in> fst ` set args"
proof
  assume "provided args p"
  moreover from assms(2) have "map_of object_prototype (p_name p) = None"
    by (simp add: map_of_eq_None_iff)
  ultimately obtain v where "map_of args (p_name p) = Some v"
    by (auto simp: provided_def prop_get_def split: option.splits)
  then have "(p_name p, v) \<in> set args" by (rule map_of_SomeD)
  then show "p_name p \<in> fst ` set args" by force
next
  assume "p_name p \<in> fst ` set args"
  then obtain v where v: "map_of args (p_name p) = Some v"
    by (cases "map_of args (p_name p)") (auto simp: map_of_eq_None_iff)
  then have "(p_name p, v) \<in> set args" by (rule map_of_SomeD)
  then have "v \<in> snd ` set args" by force
  with assms(1) have "v \<noteq> JUndefined" by blast
  with v show "provided args p" by (simp add: provided_def prop_get_def)
qed

text \<open>The example of the specification: all three arguments given, then only \<open>id\<close>.\<close>

lemma codec_specification_example:
  "unifiedArgumentsToParametersArray
     [(''id'', JNum 123), (''filter'', JStr ''active''), (''data'', JObj [(''name'', JStr ''Test'')])]
     (Some [\<lparr>p_name = ''id'', p_in = ''path'', p_required = Some True, p_schema = None\<rparr>,
            \<lparr>p_name = ''filter'', p_in = ''query'', p_required = Some False, p_schema = None\<rparr>,
            \<lparr>p_name = ''data'', p_in = ''body'', p_required = Some True, p_schema = None\<rparr>])
   = \<lparr>c_params = [\<lparr>e_name = ''id'', e_in = ''path'', e_value = JNum 123\<rparr>,
                  \<lparr>e_name = ''filter'', e_in = ''query'', e_value = JStr ''active''\<rparr>],
      c_body = JObj [(''name'', JStr ''Test'')]\<rparr>
   \<and> unifiedArgumentsToParametersArray
     [(''id'', JNum 123)]
     (Some [\<lparr>p_name = ''id'', p_in = ''path'', p_required = Some True, p_schema = None\<rparr>,
            \<lparr>p_name = ''filter'', p_in = ''query'', p_required = Some False, p_schema = None\<rparr>,
            \<lparr>p_name = ''data'', p_in = ''body'', p_required = Some True, p_schema = None\<rparr>])
   = \<lparr>c_params = [\<lparr>e_name = ''id'', e_in = ''path'', e_value = JNum 123\<rparr>],
      c_body = JUndefined\<rparr>"
  by (simp add: unifiedArgumentsToParametersArray_def prop_get_def object_prototype_def)

text \<open>
  C5. The claim is that a declared parameter absent from the arguments is skipped, so that
  the entries are those of the parameters present in the arguments. On the code the test
  is \<open>args[name] === undefined\<close>, and the read finds what every object inherits: with the
  empty argument object, a declared query parameter named \<open>constructor\<close> gets an entry
  whose value is the function \<open>Object\<close>, and a declared body parameter named \<open>toString\<close>
  sets the body to the inherited function.
\<close>

theorem unifiedArgumentsToParametersArray_inherited_name:
  "unifiedArgumentsToParametersArray []
     (Some [\<lparr>p_name = ''constructor'', p_in = ''query'', p_required = Some False, p_schema = None\<rparr>,
            \<lparr>p_name = ''id'', p_in = ''path'', p_required = Some False, p_schema = None\<rparr>,
            \<lparr>p_name = ''toString'', p_in = ''body'', p_required = Some False, p_schema = None\<rparr>])
   = \<lparr>c_params = [\<lparr>e_name = ''constructor'', e_in = ''query'', e_value = JBuiltin ''Object''\<rparr>],
      c_body = JBuiltin ''Object.prototype.toString''\<rparr>"
  by (simp add: unifiedArgumentsToParametersArray_def prop_get_def object_prototype_def)


section \<open>Properties of the derived operation id\<close>

lemma replace_non_id_length: "length (replace_non_id s) = length s"
  by (simp add: replace_non_id_def)

lemma replace_non_id_chars: "c \<in> set (replace_non_id s) \<Longrightarrow> id_char c"
  by (auto simp: replace_non_id_def id_char_def)

lemma replace_non_id_nth:
  "i < length s \<Longrightarrow> replace_non_id s ! i = (if id_char (s ! i) then s ! i else CHR ''_'')"
  by (simp add: replace_non_id_def)

lemma slice_last_length: "length (slice_last n s) = min n (length s)"
  by (simp add: slice_last_def)

lemma getOperations_ids:
  "map oe_operationId (getOperations clientFunction operations) = map deriveOperationId operations"
  by (simp add: getOperations_def comp_def)

text \<open>
  C4. For an operation without an \<open>operationId\<close>: with a (non-empty) description the
  derived id is the first 64 characters of the description in which every character
  outside \<open>[A-Za-z0-9_-]\<close> is replaced by \<open>_\<close>; without a description (or with an empty one)
  it is the method, \<open>_\<close>, and the last 55 characters (at most) of the path after the same
  replacement. The two examples of the specification come out as stated.
\<close>

theorem deriveOperationId_without_operationId:
  assumes "op_operationId operation = None"
  shows "(\<forall>d. op_description operation = Some d \<and> d \<noteq> [] \<longrightarrow>
            deriveOperationId operation = take 64 (map (\<lambda>c. if id_char c then c else CHR ''_'') d))
       \<and> (op_description operation = None \<or> op_description operation = Some [] \<longrightarrow>
            deriveOperationId operation =
              op_method operation @ ''_'' @
              drop (length (op_path operation) - 55)
                (map (\<lambda>c. if id_char c then c else CHR ''_'') (op_path operation)))"
  using assms
  by (auto simp: deriveOperationId_def slice_first_def slice_last_def replace_non_id_def)

theorem deriveOperationId_without_operationId_witness:
  "deriveOperationId
     \<lparr>op_operationId = None, op_description = Some ''Test operation with spaces & symbols!'',
      op_method = ''get'', op_path = ''/path1'', op_parameters = Some []\<rparr>
     = ''Test_operation_with_spaces___symbols_''
   \<and> deriveOperationId
     \<lparr>op_operationId = None, op_description = None,
      op_method = ''post'', op_path = ''/test/resource/123'', op_parameters = Some []\<rparr>
     = ''post__test_resource_123''"
  using deriveOperationId_without_operationId
          [of "\<lparr>op_operationId = None, op_description = Some ''Test operation with spaces & symbols!'',
                op_method = ''get'', op_path = ''/path1'', op_parameters = Some []\<rparr>"]
        deriveOperationId_without_operationId
          [of "\<lparr>op_operationId = None, op_description = None,
                op_method = ''post'', op_path = ''/test/resource/123'', op_parameters = Some []\<rparr>"]
  by (simp add: id_char_def)


section \<open>Properties of the tool adapter\<close>

lemma contentType_of_object:
  "contentType_of (JObj hs) =
     Inr (js_or (js_or (obj_get hs ''content-type'') (obj_get hs ''Content-Type'')) (JStr ''application/json''))"
  by (simp add: contentType_of_def)

lemma string_record_contentType:
  assumes "\<forall>v \<in> snd ` set hs. \<exists>s. v = JStr s"
  shows "\<exists>ct. contentType_of (JObj hs) = Inr (JStr ct)"
proof -
  have str: "\<exists>s. obj_get hs k = JStr s \<or> obj_get hs k = JUndefined" for k
  proof (cases "map_of hs k")
    case None
    then show ?thesis by (simp add: obj_get_def)
  next
    case (Some v)
    then have "(k, v) \<in> set hs" by (rule map_of_SomeD)
    then have "v \<in> snd ` set hs" by force
    with assms obtain s where "v = JStr s" by blast
    with Some show ?thesis by (simp add: obj_get_def)
  qed
  from str[of "''content-type''"] str[of "''Content-Type''"]
  show ?thesis
    by (auto simp: contentType_of_object js_or_def)
qed

text \<open>
  C6, as amended. A \<open>ToolCallResult\<close> whose headers are a record and whose content type
  (the \<open>content-type\<close> entry, else the \<open>Content-Type\<close> entry, else \<open>application/json\<close>) is
  a string, as it is for every result of the declared type, whose headers are a record
  of strings, is converted into exactly one content item: an image item with the payload and
  the content type as mime type when the content type starts with \<open>image/\<close>, an audio
  item likewise when it starts with \<open>audio/\<close>, and otherwise a text item whose text is
  the serialisation of the whole result, \<open>statusCode\<close>, \<open>headers\<close> and \<open>data\<close>.
\<close>

theorem getContentObject_one_item:
  assumes "headers result = JObj hs"
    and "js_or (js_or (obj_get hs ''content-type'') (obj_get hs ''Content-Type''))
           (JStr ''application/json'') = JStr ct"
  shows "tool_content stringify result =
           Inr [if startsWith ct ''image/'' then ImageContent (data result) ct
                else if startsWith ct ''audio/'' then AudioContent (data result) ct
                else TextContent
                       (stringify (JObj [(''statusCode'', statusCode result),
                                         (''headers'', headers result),
                                         (''data'', data result)]))
                       ''application/json'']"
  using assms
  by (simp add: tool_content_def getContentObject_def contentType_of_object result_object_def)

theorem getContentObject_one_item_witness:
  "\<forall>stringify.
     tool_content stringify
       \<lparr>statusCode = JNum 200, headers = JObj [(''content-type'', JStr ''image/jpeg'')],
        data = JStr ''fake-image-data''\<rparr>
       = Inr [ImageContent (JStr ''fake-image-data'') ''image/jpeg'']
   \<and> tool_content stringify
       \<lparr>statusCode = JNum 200, headers = JObj [(''content-type'', JStr ''application/json'')],
        data = JObj [(''key'', JStr ''value'')]\<rparr>
       = Inr [TextContent
               (stringify (JObj [(''statusCode'', JNum 200),
                                 (''headers'', JObj [(''content-type'', JStr ''application/json'')]),
                                 (''data'', JObj [(''key'', JStr ''value'')])]))
               ''application/json'']"
  using getContentObject_one_item
          [of "\<lparr>statusCode = JNum 200, headers = JObj [(''content-type'', JStr ''image/jpeg'')],
                data = JStr ''fake-image-data''\<rparr>"
              "[(''content-type'', JStr ''image/jpeg'')]" "''image/jpeg''"]
        getContentObject_one_item
          [of "\<lparr>statusCode = JNum 200, headers = JObj [(''content-type'', JStr ''application/json'')],
                data = JObj [(''key'', JStr ''value'')]\<rparr>"
              "[(''content-type'', JStr ''application/json'')]" "''application/json''"]
  by (simp add: js_or_def obj_get_def startsWith_def)

text \<open>
  The claim C6 as stated, for every \<open>ToolCallResult\<close>, fails on the results that do not
  have the declared type. \<open>onToolCall\<close> builds \<open>{statusCode: 404, headers: undefined, data:
  'Not Found'}\<close> from an error response without headers, and for it \<open>getContentObject\<close>
  throws on \<open>headers['content-type']\<close>; for a content type that is an array it throws on
  \<open>contentType.startsWith\<close>. Neither result is converted into a content item, whatever the
  serialiser.
\<close>

theorem getContentObject_claim_counterexample:
  "\<not> (\<forall>stringify. \<exists>item.
         tool_content stringify
           \<lparr>statusCode = JNum 404, headers = JUndefined, data = JStr ''Not Found''\<rparr> = Inr [item])
   \<and> \<not> (\<forall>stringify. \<exists>item.
         tool_content stringify
           \<lparr>statusCode = JNum 200,
            headers = JObj [(''content-type'', JArr [JStr ''image/png'', JStr ''image/png''])],
            data = JNull\<rparr> = Inr [item])"
  by (simp add: tool_content_def getContentObject_def contentType_of_def js_or_def obj_get_def)

lemma onToolCall_success:
  "oe_callback entry (c_params (unifiedArgumentsToParametersArray args (oe_parameters entry)))
                     (c_body (unifiedArgumentsToParametersArray args (oe_parameters entry)))
     = Resolved (JObj response)
   \<Longrightarrow> onToolCall args entry =
         Inr \<lparr>statusCode = obj_get response ''status'', headers = obj_get response ''headers'',
              data = obj_get response ''data''\<rparr>"
  by (simp add: onToolCall_def)

lemma onToolCall_error_response:
  "oe_callback entry (c_params (unifiedArgumentsToParametersArray args (oe_parameters entry)))
                     (c_body (unifiedArgumentsToParametersArray args (oe_parameters entry)))
     = Rejected error
   \<Longrightarrow> js_get_opt error ''response'' = JObj response
   \<Longrightarrow> onToolCall args entry =
         Inr \<lparr>statusCode = js_nullish (obj_get response ''status'') (JNum 500),
              headers = obj_get response ''headers'',
              data = obj_get response ''data''\<rparr>"
  by (simp add: onToolCall_def onToolCall_catch_def)

lemma onToolCall_other_error:
  "oe_callback entry (c_params (unifiedArgumentsToParametersArray args (oe_parameters entry)))
                     (c_body (unifiedArgumentsToParametersArray args (oe_parameters entry)))
     = Rejected error
   \<Longrightarrow> \<not> truthy (js_get_opt error ''response'')
   \<Longrightarrow> error \<noteq> JUndefined \<Longrightarrow> error \<noteq> JNull
   \<Longrightarrow> onToolCall args entry =
         Inr \<lparr>statusCode = JNum 500, headers = JObj [],
              data = js_nullish (js_get_opt error ''message'') error\<rparr>"
  by (cases error) (simp_all add: onToolCall_def onToolCall_catch_def)

lemma onToolCall_raises_iff:
  "(\<exists>exn. onToolCall args entry = Inl exn) \<longleftrightarrow>
     oe_callback entry (c_params (unifiedArgumentsToParametersArray args (oe_parameters entry)))
                       (c_body (unifiedArgumentsToParametersArray args (oe_parameters entry)))
       \<in> {Rejected JUndefined, Rejected JNull}"
  apply (simp add: onToolCall_def onToolCall_catch_def split: outcome.splits sum.splits)
  apply (auto split: if_splits)
  subgoal for x by (cases x) auto
  subgoal for x by (cases x) auto
  done

text \<open>
  C1. The claim is that the registered handler never raises. On the code it does: when
  the callback rejects with an error whose \<open>response\<close> has a status and a body but no
  \<open>headers\<close>, \<open>onToolCall\<close> returns a result whose \<open>headers\<close> is \<open>undefined\<close>, and
  \<open>getContentObject\<close>, which runs outside the \<open>try\<close>, throws on \<open>headers['content-type']\<close>;
  when the callback rejects with \<open>undefined\<close>, the \<open>catch\<close> clause itself throws on
  \<open>error.message\<close>.
\<close>

theorem tool_handler_raises:
  "tool_handler stringify
     \<lparr>oe_parameters = Some [], oe_description = Some ''Error operation'',
      oe_operationId = ''error-op'',
      oe_callback = (\<lambda>params body.
         Rejected (JObj [(''message'', JStr ''Request failed with status code 404''),
                         (''response'', JObj [(''status'', JNum 404),
                                               (''data'', JStr ''Not Found'')])]))\<rparr>
     []
   = Inl (TypeError (''Cannot read properties of undefined (reading '' @ quoted ''content-type'' @ '')''))
   \<and> tool_handler stringify
     \<lparr>oe_parameters = Some [], oe_description = Some ''Error operation'',
      oe_operationId = ''error-op'',
      oe_callback = (\<lambda>params body. Rejected JUndefined)\<rparr>
     []
   = Inl (TypeError (''Cannot read properties of undefined (reading '' @ quoted ''message'' @ '')''))"
  by (simp add: tool_handler_def onToolCall_def onToolCall_catch_def tool_content_def
        getContentObject_def contentType_of_def unifiedArgumentsToParametersArray_def
        obj_get_def js_nullish_def)

lemma tool_handler_returns:
  assumes "onToolCall args entry = Inr result"
    and "headers result = JObj hs"
    and "\<forall>v \<in> snd ` set hs. \<exists>s. v = JStr s"
  shows "\<exists>item. tool_handler stringify entry args = Inr [item]"
proof -
  from string_record_contentType[OF assms(3)] obtain ct
    where "contentType_of (JObj hs) = Inr (JStr ct)" by blast
  with assms(1,2) show ?thesis
    by (simp add: tool_handler_def tool_content_def getContentObject_def)
qed


section \<open>Properties of the token lifecycle\<close>

lemma getOAuthToken_config: "tc_config (getOAuthToken E authConfig state) = authConfig"
  by (simp add: getOAuthToken_def token_success_def Let_def
        split: option.splits outcome.splits sum.splits)

lemma getOAuthToken_requests:
  "request \<in> set (tc_requests (getOAuthToken E authConfig state))
   \<Longrightarrow> \<exists>oauth2. ac_oauth2 authConfig = Some oauth2 \<and> request = token_request E authConfig oauth2"
  by (auto simp: getOAuthToken_def token_success_def Let_def
        split: option.splits outcome.splits sum.splits if_splits)

lemma params_get_set: "params_get (params_set k v ps) k = Some v"
  by (induction ps) (auto simp: params_get_def)

lemma params_get_append:
  "params_get (params_append k v ps) k' =
     (case params_get ps k' of Some w \<Rightarrow> Some w | None \<Rightarrow> if k' = k then Some v else None)"
  by (auto simp: params_get_def params_append_def map_add_def split: option.splits)

lemma params_get_fold_append:
  "params_get ps k = Some v
   \<Longrightarrow> params_get (fold (\<lambda>kv ps. params_append (fst kv) (snd kv) ps) extra ps) k = Some v"
  by (induction extra arbitrary: ps) (simp_all add: params_get_append)

lemma params_get_Nil: "params_get [] k = None"
  by (simp add: params_get_def)

lemma token_params_grant_type:
  "params_get (token_params authConfig oauth2) ''grant_type'' =
     Some (if \<exists>t. ac_refreshToken authConfig = Some t \<and> t \<noteq> [] then ''refresh_token''
           else ''client_credentials'')"
  by (auto simp: token_params_def Let_def params_get_append params_get_set
        params_get_fold_append params_get_Nil split: option.splits)

lemma token_calls_frame:
  "call \<in> set (token_calls Es authConfig state)
   \<Longrightarrow> tc_config call = authConfig
       \<and> (\<forall>request \<in> set (tc_requests call).
             \<exists>E oauth2. ac_oauth2 authConfig = Some oauth2
                        \<and> request = token_request E authConfig oauth2)"
proof (induction Es arbitrary: state)
  case Nil
  then show ?case by simp
next
  case (Cons E Es)
  show ?case
  proof (cases "call = getOAuthToken E authConfig state")
    case True
    then show ?thesis
      using getOAuthToken_requests[of _ E authConfig state]
      by (simp add: getOAuthToken_config) blast
  next
    case False
    with Cons.prems
    have "call \<in> set (token_calls Es authConfig (tc_state (getOAuthToken E authConfig state)))"
      by (simp add: getOAuthToken_config)
    then show ?thesis by (rule Cons.IH)
  qed
qed

text \<open>
  C10. In every sequence of calls of \<open>getOAuthToken\<close> on one configuration object, each call
  leaves the configuration as it was before the first call, and the form fields of every
  token request are those computed from that configuration, whatever the earlier
  responses carried: the grant type is \<open>refresh_token\<close> only when the configuration had a
  \<open>refreshToken\<close> from the start, and a refresh token issued by the server is sent in no
  later request.
\<close>

theorem token_calls_refresh_token_unused:
  assumes "call \<in> set (token_calls Es authConfig state)"
  shows "tc_config call = authConfig
       \<and> (\<forall>request \<in> set (tc_requests call).
             (\<exists>oauth2. ac_oauth2 authConfig = Some oauth2
                       \<and> tr_params request = token_params authConfig oauth2)
           \<and> (params_get (tr_params request) ''grant_type'' = Some ''refresh_token''
                \<longrightarrow> (\<exists>t. ac_refreshToken authConfig = Some t \<and> t \<noteq> [])))"
proof -
  from token_calls_frame[OF assms]
  have cfg: "tc_config call = authConfig"
    and reqs: "\<forall>request \<in> set (tc_requests call).
                 \<exists>E oauth2. ac_oauth2 authConfig = Some oauth2
                            \<and> request = token_request E authConfig oauth2"
    by blast+
  have "(\<exists>oauth2. ac_oauth2 authConfig = Some oauth2
                 \<and> tr_params request = token_params authConfig oauth2)
      \<and> (params_get (tr_params request) ''grant_type'' = Some ''refresh_token''
           \<longrightarrow> (\<exists>t. ac_refreshToken authConfig = Some t \<and> t \<noteq> []))"
    if "request \<in> set (tc_requests call)" for request
  proof -
    from reqs that obtain E oauth2
      where o: "ac_oauth2 authConfig = Some oauth2"
        and r: "request = token_request E authConfig oauth2" by blast
    have p: "tr_params request = token_params authConfig oauth2"
      by (simp add: r token_request_def)
    show ?thesis
      using o p token_params_grant_type[of authConfig oauth2]
      by (auto split: if_splits)
  qed
  with cfg show ?thesis by blast
qed

theorem token_calls_refresh_token_unused_witness:
  "tc_config
     (token_calls
        [example_env 1000 (Resolved (JObj [(''data'', JObj [(''access_token'', JStr ''token-1''),
                                                             (''refresh_token'', JStr ''issued-refresh-token'')])])),
         example_env 2000 (Resolved (JObj [(''data'', JObj [(''access_token'', JStr ''token-2'')])]))]
        example_oauth2_config initial_state ! 1)
     = example_oauth2_config
   \<and> map (\<lambda>request. params_get (tr_params request) ''grant_type'')
       (tc_requests
          (token_calls
             [example_env 1000 (Resolved (JObj [(''data'', JObj [(''access_token'', JStr ''token-1''),
                                                                  (''refresh_token'', JStr ''issued-refresh-token'')])])),
              example_env 2000 (Resolved (JObj [(''data'', JObj [(''access_token'', JStr ''token-2'')])]))]
             example_oauth2_config initial_state ! 1))
     = [Some ''client_credentials'']
   \<and> map (\<lambda>request. params_get (tr_params request) ''refresh_token'')
       (tc_requests
          (token_calls
             [example_env 1000 (Resolved (JObj [(''data'', JObj [(''access_token'', JStr ''token-1''),
                                                                  (''refresh_token'', JStr ''issued-refresh-token'')])])),
              example_env 2000 (Resolved (JObj [(''data'', JObj [(''access_token'', JStr ''token-2'')])]))]
             example_oauth2_config initial_state ! 1))
     = [None]"
  using token_calls_refresh_token_unused
          [of "token_calls
                 [example_env 1000 (Resolved (JObj [(''data'', JObj [(''access_token'', JStr ''token-1''),
                                                                      (''refresh_token'', JStr ''issued-refresh-token'')])])),
                  example_env 2000 (Resolved (JObj [(''data'', JObj [(''access_token'', JStr ''token-2'')])]))]
                 example_oauth2_config initial_state ! 1"
              "[example_env 1000 (Resolved (JObj [(''data'', JObj [(''access_token'', JStr ''token-1''),
                                                                   (''refresh_token'', JStr ''issued-refresh-token'')])])),
                example_env 2000 (Resolved (JObj [(''data'', JObj [(''access_token'', JStr ''token-2'')])]))]"
              example_oauth2_config initial_state]
  by (simp add: getOAuthToken_def token_success_def example_env_def example_oauth2_config_def
        initial_state_def token_request_def token_params_def params_append_def params_get_def
        obj_get_def Let_def)

lemma getOAuthToken_no_oauth2:
  "ac_oauth2 authConfig = None
   \<Longrightarrow> getOAuthToken E authConfig state =
         \<lparr>tc_result = JNull, tc_state = state, tc_config = authConfig, tc_requests = [],
          tc_log = [(LogDebug, ''Getting OAuth token''),
                    (LogError, ''OAuth2 configuration not found'')]\<rparr>"
  by (simp add: getOAuthToken_def)

lemma getOAuthToken_cached:
  "ac_oauth2 authConfig = Some oauth2
   \<Longrightarrow> truthy (js_get_opt (tokenData state) ''access_token'')
   \<Longrightarrow> num_gt (tokenExpiresAt state) (env_now E)
   \<Longrightarrow> getOAuthToken E authConfig state =
         \<lparr>tc_result = js_get_opt (tokenData state) ''access_token'', tc_state = state,
          tc_config = authConfig, tc_requests = [],
          tc_log = [(LogDebug, ''Getting OAuth token''),
                    (LogDebug, ''Using existing valid OAuth token'')]\<rparr>"
  by (simp add: getOAuthToken_def)

lemma getOAuthToken_posts_once:
  "ac_oauth2 authConfig = Some oauth2
   \<Longrightarrow> \<not> (truthy (js_get_opt (tokenData state) ''access_token'')
           \<and> num_gt (tokenExpiresAt state) (env_now E))
   \<Longrightarrow> tc_requests (getOAuthToken E authConfig state) = [token_request E authConfig oauth2]"
  by (auto simp: getOAuthToken_def token_success_def Let_def split: outcome.splits sum.splits)

lemma getOAuthToken_expiry_set:
  "ac_oauth2 authConfig = Some oauth2
   \<Longrightarrow> \<not> (truthy (js_get_opt (tokenData state) ''access_token'')
           \<and> num_gt (tokenExpiresAt state) (env_now E))
   \<Longrightarrow> env_post E (token_request E authConfig oauth2) = Resolved response
   \<Longrightarrow> js_get response ''data'' = Inr body
   \<Longrightarrow> js_get body ''expires_in'' = Inr (JNum expires_in)
   \<Longrightarrow> expires_in \<noteq> 0
   \<Longrightarrow> tokenExpiresAt (tc_state (getOAuthToken E authConfig state))
       = Num (env_double E (env_double E (env_now E + env_double E (expires_in * 1000)) - 30000))"
  by (auto simp: getOAuthToken_def token_success_def Let_def to_number_def)

lemma getOAuthToken_expiry_kept:
  assumes "ac_oauth2 authConfig = Some oauth2"
    and "\<not> (truthy (js_get_opt (tokenData state) ''access_token'')
             \<and> num_gt (tokenExpiresAt state) (env_now E))"
    and "env_post E (token_request E authConfig oauth2) = Resolved response"
    and "js_get response ''data'' = Inr body"
    and "js_get_opt body ''expires_in'' = JUndefined"
  shows "tokenExpiresAt (tc_state (getOAuthToken E authConfig state)) = tokenExpiresAt state"
proof -
  have "js_get body ''expires_in'' = Inr JUndefined \<or> (\<exists>exn. js_get body ''expires_in'' = Inl exn)"
    using assms(5) by (cases body) auto
  with assms show ?thesis
    by (auto simp: getOAuthToken_def token_success_def Let_def)
qed

text \<open>
  C2, as amended. For a configuration that carries no OAuth2 settings \<open>getOAuthToken\<close>
  returns \<open>null\<close>, posts nothing and leaves the state. For one that carries them: when the
  state holds an access token and the clock is strictly before the stored expiry, it
  returns the cached access token, posts nothing and leaves the state; otherwise it posts
  exactly one token request, and a response whose body carries a non-zero number
  \<open>expires_in\<close> sets the expiry to \<open>now + expires_in * 1000 - 30000\<close> as the language
  computes it, each operation rounded to a double, which is exactly that number whenever
  the product, the sum and the difference are doubles; a response without \<open>expires_in\<close>
  leaves the expiry at its previous value.
\<close>

theorem getOAuthToken_cache_and_expiry:
  "(ac_oauth2 authConfig = None
      \<longrightarrow> tc_result (getOAuthToken E authConfig state) = JNull
        \<and> tc_requests (getOAuthToken E authConfig state) = []
        \<and> tc_state (getOAuthToken E authConfig state) = state)
   \<and> (\<forall>oauth2. ac_oauth2 authConfig = Some oauth2 \<longrightarrow>
        (truthy (js_get_opt (tokenData state) ''access_token'')
            \<and> num_gt (tokenExpiresAt state) (env_now E)
          \<longrightarrow> tc_result (getOAuthToken E authConfig state) = js_get_opt (tokenData state) ''access_token''
              \<and> tc_requests (getOAuthToken E authConfig state) = []
              \<and> tc_state (getOAuthToken E authConfig state) = state)
        \<and> (\<not> (truthy (js_get_opt (tokenData state) ''access_token'')
               \<and> num_gt (tokenExpiresAt state) (env_now E))
          \<longrightarrow> tc_requests (getOAuthToken E authConfig state) = [token_request E authConfig oauth2]
              \<and> (\<forall>response body expires_in.
                    env_post E (token_request E authConfig oauth2) = Resolved response
                    \<and> js_get response ''data'' = Inr body
                    \<and> js_get body ''expires_in'' = Inr (JNum expires_in) \<and> expires_in \<noteq> 0
                    \<longrightarrow> tokenExpiresAt (tc_state (getOAuthToken E authConfig state))
                          = Num (env_double E
                                   (env_double E (env_now E + env_double E (expires_in * 1000)) - 30000))
                        \<and> (env_double E (expires_in * 1000) = expires_in * 1000
                           \<and> env_double E (env_now E + expires_in * 1000) = env_now E + expires_in * 1000
                           \<and> env_double E (env_now E + expires_in * 1000 - 30000)
                               = env_now E + expires_in * 1000 - 30000
                           \<longrightarrow> tokenExpiresAt (tc_state (getOAuthToken E authConfig state))
                                 = Num (env_now E + expires_in * 1000 - 30000)))
              \<and> (\<forall>response body.
                    env_post E (token_request E authConfig oauth2) = Resolved response
                    \<and> js_get response ''data'' = Inr body
                    \<and> js_get_opt body ''expires_in'' = JUndefined
                    \<longrightarrow> tokenExpiresAt (tc_state (getOAuthToken E authConfig state))
                          = tokenExpiresAt state)))"
proof (intro conjI impI allI)
  assume "ac_oauth2 authConfig = None"
  then show "tc_result (getOAuthToken E authConfig state) = JNull"
    and "tc_requests (getOAuthToken E authConfig state) = []"
    and "tc_state (getOAuthToken E authConfig state) = state"
    by (simp_all add: getOAuthToken_no_oauth2)
next
  fix oauth2
  assume "ac_oauth2 authConfig = Some oauth2"
    and "truthy (js_get_opt (tokenData state) ''access_token'')
            \<and> num_gt (tokenExpiresAt state) (env_now E)"
  then show "tc_result (getOAuthToken E authConfig state) = js_get_opt (tokenData state) ''access_token''"
    and "tc_requests (getOAuthToken E authConfig state) = []"
    and "tc_state (getOAuthToken E authConfig state) = state"
    by (simp_all add: getOAuthToken_cached)
next
  fix oauth2
  assume "ac_oauth2 authConfig = Some oauth2"
    and "\<not> (truthy (js_get_opt (tokenData state) ''access_token'')
               \<and> num_gt (tokenExpiresAt state) (env_now E))"
  then show "tc_requests (getOAuthToken E authConfig state) = [token_request E authConfig oauth2]"
    by (rule getOAuthToken_posts_once)
next
  fix oauth2 response body expires_in
  assume o: "ac_oauth2 authConfig = Some oauth2"
    and nc: "\<not> (truthy (js_get_opt (tokenData state) ''access_token'')
               \<and> num_gt (tokenExpiresAt state) (env_now E))"
    and r: "env_post E (token_request E authConfig oauth2) = Resolved response
         \<and> js_get response ''data'' = Inr body
         \<and> js_get body ''expires_in'' = Inr (JNum expires_in) \<and> expires_in \<noteq> 0"
  from r have r1: "env_post E (token_request E authConfig oauth2) = Resolved response"
    and r2: "js_get response ''data'' = Inr body"
    and r3: "js_get body ''expires_in'' = Inr (JNum expires_in)"
    and r4: "expires_in \<noteq> 0" by simp_all
  show rounded: "tokenExpiresAt (tc_state (getOAuthToken E authConfig state))
          = Num (env_double E (env_double E (env_now E + env_double E (expires_in * 1000)) - 30000))"
    by (rule getOAuthToken_expiry_set[OF o nc r1 r2 r3 r4])
  assume "env_double E (expires_in * 1000) = expires_in * 1000
          \<and> env_double E (env_now E + expires_in * 1000) = env_now E + expires_in * 1000
          \<and> env_double E (env_now E + expires_in * 1000 - 30000)
              = env_now E + expires_in * 1000 - 30000"
  with rounded show "tokenExpiresAt (tc_state (getOAuthToken E authConfig state))
          = Num (env_now E + expires_in * 1000 - 30000)"
    by simp
next
  fix oauth2 response body
  assume o: "ac_oauth2 authConfig = Some oauth2"
    and nc: "\<not> (truthy (js_get_opt (tokenData state) ''access_token'')
               \<and> num_gt (tokenExpiresAt state) (env_now E))"
    and r: "env_post E (token_request E authConfig oauth2) = Resolved response
         \<and> js_get response ''data'' = Inr body
         \<and> js_get_opt body ''expires_in'' = JUndefined"
  then show "tokenExpiresAt (tc_state (getOAuthToken E authConfig state)) = tokenExpiresAt state"
    using getOAuthToken_expiry_kept[of authConfig oauth2 state E response body] by blast
qed

theorem getOAuthToken_cache_and_expiry_witness:
  "tc_result (getOAuthToken (example_env 1617235200000 (Rejected JUndefined))
                example_api_key_config example_cached_state) = JNull
   \<and> tc_requests (getOAuthToken (example_env 1617235200000 (Rejected JUndefined))
                example_api_key_config example_cached_state) = []
   \<and> tc_result (getOAuthToken (example_env 1617235200000 (Rejected JUndefined))
                example_oauth2_config example_cached_state) = JStr ''cached-token''
   \<and> tc_requests (getOAuthToken (example_env 1617235200000 (Rejected JUndefined))
                example_oauth2_config example_cached_state) = []
   \<and> length (tc_requests (getOAuthToken
                (example_env 1617235202000
                   (example_token_response
                      (JObj [(''access_token'', JStr ''new-token''), (''expires_in'', JNum 3600)])))
                example_oauth2_config example_cached_state)) = 1
   \<and> tokenExpiresAt (tc_state (getOAuthToken
                (example_env 1617235202000
                   (example_token_response
                      (JObj [(''access_token'', JStr ''new-token''), (''expires_in'', JNum 3600)])))
                example_oauth2_config example_cached_state)) = Num 1617238772000
   \<and> tokenExpiresAt (tc_state (getOAuthToken
                (example_env 1617235202000
                   (example_token_response (JObj [(''access_token'', JStr ''new-token'')])))
                example_oauth2_config example_cached_state)) = Num 1617235201000"
  using getOAuthToken_cache_and_expiry
          [where authConfig = example_api_key_config and state = example_cached_state
             and E = "example_env 1617235200000 (Rejected JUndefined)"]
        getOAuthToken_cache_and_expiry
          [where authConfig = example_oauth2_config and state = example_cached_state
             and E = "example_env 1617235200000 (Rejected JUndefined)"]
        getOAuthToken_cache_and_expiry
          [where authConfig = example_oauth2_config and state = example_cached_state
             and E = "example_env 1617235202000
                 (example_token_response
                    (JObj [(''access_token'', JStr ''new-token''), (''expires_in'', JNum 3600)]))"]
        getOAuthToken_cache_and_expiry
          [where authConfig = example_oauth2_config and state = example_cached_state
             and E = "example_env 1617235202000
                 (example_token_response (JObj [(''access_token'', JStr ''new-token'')]))"]
  by (simp add: example_oauth2_config_def example_api_key_config_def example_cached_state_def
        example_env_def example_token_response_def obj_get_def)

text \<open>
  The claim C2 as stated fails twice. With a configuration that carries no OAuth2
  settings the guard at the head of \<open>getOAuthToken\<close> returns \<open>null\<close> although a valid token
  is cached, and it posts nothing although the token has expired. With a response that
  includes \<open>expires_in: 0\<close> the expiry is not set to \<open>now + 0 * 1000 - 30000\<close>: the test
  \<open>if (response.data.expires_in)\<close> is false for zero.
\<close>

theorem getOAuthToken_claim_counterexample:
  "tc_result (getOAuthToken (example_env 1617235200000 (Rejected JUndefined))
                example_api_key_config example_cached_state) = JNull
   \<and> tc_requests (getOAuthToken (example_env 1617235202000 (Rejected JUndefined))
                example_api_key_config example_cached_state) = []
   \<and> tokenExpiresAt (tc_state (getOAuthToken
                (example_env 100000
                   (example_token_response
                      (JObj [(''access_token'', JStr ''new-token''), (''expires_in'', JNum 0)])))
                example_oauth2_config initial_state)) = Num 0
   \<and> Num 0 \<noteq> Num (100000 + 0 * 1000 - 30000)"
  by (simp add: getOAuthToken_def token_success_def example_api_key_config_def
        example_oauth2_config_def example_cached_state_def example_env_def initial_state_def
        example_token_response_def obj_get_def Let_def)

text \<open>
  C3, as amended. When the token request itself fails, that is when \<open>axios.post\<close> rejects
  (network error, status outside 2xx), \<open>getOAuthToken\<close> logs the failure, returns \<open>null\<close> and
  leaves the state exactly as it was, and \<open>getAuthHeaders\<close> for an OAuth2 configuration
  then returns the empty header record.
\<close>

theorem getOAuthToken_request_failure:
  assumes "ac_oauth2 authConfig = Some oauth2"
    and "\<not> (truthy (js_get_opt (tokenData state) ''access_token'')
             \<and> num_gt (tokenExpiresAt state) (env_now E))"
    and "env_post E (token_request E authConfig oauth2) = Rejected error"
  shows "tc_result (getOAuthToken E authConfig state) = JNull
       \<and> tc_state (getOAuthToken E authConfig state) = state
       \<and> tc_requests (getOAuthToken E authConfig state) = [token_request E authConfig oauth2]
       \<and> (LogError, ''Failed to obtain OAuth token'') \<in> set (tc_log (getOAuthToken E authConfig state))
       \<and> (ac_type authConfig = OAUTH2
            \<longrightarrow> hc_headers (getAuthHeaders E authConfig state) = []
              \<and> hc_state (getAuthHeaders E authConfig state) = state)"
proof -
  from assms have call:
    "getOAuthToken E authConfig state =
       \<lparr>tc_result = JNull, tc_state = state, tc_config = authConfig,
        tc_requests = [token_request E authConfig oauth2], tc_log = failure_log\<rparr>"
    by (auto simp: getOAuthToken_def)
  then show ?thesis
    by (simp add: getAuthHeaders_def Let_def failure_log_def)
qed

theorem getOAuthToken_request_failure_witness:
  "tc_result (getOAuthToken (example_env 1617235200000 (Rejected (JObj [(''message'', JStr ''Token refresh failed'')])))
                example_oauth2_config example_expired_state) = JNull
   \<and> tc_state (getOAuthToken (example_env 1617235200000 (Rejected (JObj [(''message'', JStr ''Token refresh failed'')])))
                example_oauth2_config example_expired_state) = example_expired_state
   \<and> (LogError, ''Failed to obtain OAuth token'')
       \<in> set (tc_log (getOAuthToken (example_env 1617235200000 (Rejected (JObj [(''message'', JStr ''Token refresh failed'')])))
                example_oauth2_config example_expired_state))
   \<and> hc_headers (getAuthHeaders (example_env 1617235200000 (Rejected (JObj [(''message'', JStr ''Token refresh failed'')])))
                example_oauth2_config example_expired_state) = []"
  using getOAuthToken_request_failure
          [of example_oauth2_config
              "\<lparr>oa_clientId = ''client123'', oa_clientSecret = ''secret456'',
                oa_tokenUrl = ''https://auth.example.com/token'',
                oa_scopes = Some [''read'', ''write''], oa_additionalParams = None\<rparr>"
              example_expired_state
              "example_env 1617235200000 (Rejected (JObj [(''message'', JStr ''Token refresh failed'')]))"
              "JObj [(''message'', JStr ''Token refresh failed'')]"]
  by (simp add: example_oauth2_config_def example_expired_state_def example_env_def obj_get_def)

text \<open>
  The claim C3 as stated fails for a malformed body. A 2xx response whose body is not a
  token object is stored as \<open>state.tokenData\<close> before any field of it is read: for the text
  body of the first example the value returned is \<open>undefined\<close>, not \<open>null\<close>, and the cached
  token is gone; for the body \<open>null\<close> of the second the read of \<open>response.data.expires_in\<close>
  throws after the assignment, so the failure is logged and \<open>null\<close> is returned, but the
  cached token is already overwritten.
\<close>

theorem getOAuthToken_malformed_body_counterexample:
  "tc_result (getOAuthToken
                (example_env 1617235200000 (example_token_response (JStr ''Bad Gateway'')))
                example_oauth2_config example_expired_state) = JUndefined
   \<and> tokenData (tc_state (getOAuthToken
                (example_env 1617235200000 (example_token_response (JStr ''Bad Gateway'')))
                example_oauth2_config example_expired_state)) = JStr ''Bad Gateway''
   \<and> tokenData example_expired_state
       = JObj [(''access_token'', JStr ''expired-token''), (''expires_in'', JNum 3600)]
   \<and> tc_result (getOAuthToken
                (example_env 1617235200000 (example_token_response JNull))
                example_oauth2_config example_expired_state) = JNull
   \<and> tokenData (tc_state (getOAuthToken
                (example_env 1617235200000 (example_token_response JNull))
                example_oauth2_config example_expired_state)) = JNull"
  by (simp add: getOAuthToken_def token_success_def example_oauth2_config_def
        example_expired_state_def example_env_def example_token_response_def obj_get_def Let_def)


section \<open>Properties of the schema bridge\<close>

lemma openAPISchemaToZod_date_time:
  assumes "s_type s = Some ''string'' \<or> s_type s = None"
    and "s_format s = Some ''date-time''"
  shows "openAPISchemaToZod s =
           Inr (ZodEffects
                  (case s_enum s of
                     Some values \<Rightarrow> ZodEnum values (Some (string_or (s_description s) (string_or (s_title s) [])))
                   | None \<Rightarrow> ZodString (Some (string_or (s_description s) (string_or (s_title s) []))))
                  new_Date)"
  using assms by (cases s) (auto simp: Let_def split: option.splits)

text \<open>
  C7, as amended. For a string schema whose format is \<open>date-time\<close> the bridged validator
  succeeds for every input string (for every string of the enum, when one is declared)
  and fails for every input that is not a string; no check of the date format is made.
  On success the output is the date object constructed from the input string, so the
  output type changes from string to timestamp.
\<close>

theorem date_time_validator:
  assumes "s_type s = Some ''string'' \<or> s_type s = None"
    and "s_format s = Some ''date-time''"
  shows "bridged_parse s (JStr val) =
           Inr (case s_enum s of
                  None \<Rightarrow> Inr (JDate val)
                | Some values \<Rightarrow> if JStr val \<in> set values then Inr (JDate val) else Inl InvalidEnumValue)
       \<and> ((\<forall>v. input \<noteq> JStr v) \<longrightarrow> bridged_parse s input = Inr (Inl InvalidType))"
proof
  show "bridged_parse s (JStr val) =
           Inr (case s_enum s of
                  None \<Rightarrow> Inr (JDate val)
                | Some values \<Rightarrow> if JStr val \<in> set values then Inr (JDate val) else Inl InvalidEnumValue)"
    by (simp add: bridged_parse_def openAPISchemaToZod_date_time[OF assms] split: option.splits)
  show "(\<forall>v. input \<noteq> JStr v) \<longrightarrow> bridged_parse s input = Inr (Inl InvalidType)"
    by (cases input)
       (simp_all add: bridged_parse_def openAPISchemaToZod_date_time[OF assms] split: option.splits)
qed

theorem date_time_validator_witness:
  "bridged_parse example_date_time_schema (JStr ''2023-01-01T12:00:00Z'')
     = Inr (Inr (JDate ''2023-01-01T12:00:00Z''))
   \<and> bridged_parse example_date_time_schema (JNum 5) = Inr (Inl InvalidType)"
  using date_time_validator[of example_date_time_schema "''2023-01-01T12:00:00Z''" "JNum 5"]
  by (simp add: example_date_time_schema_def)

text \<open>
  The claim C7 as stated fails: the validator succeeds for a string that is not an
  ISO 8601 date-time.
\<close>

theorem date_time_validator_counterexample:
  "bridged_parse example_date_time_schema (JStr ''not a date'') = Inr (Inr (JDate ''not a date''))
   \<and> \<not> iso8601_date_time ''not a date''
   \<and> iso8601_date_time ''2023-01-01T12:00:00Z''"
  by (simp add: bridged_parse_def example_date_time_schema_def string_or_def
        iso8601_date_time_def iso8601_zone_def is_digit_def)

lemma array_bridge_ignores_items:
  "openAPISchemaToZod (Schema description title (Some ''array'') properties required minimum maximum enumValues format items)
   = openAPISchemaToZod (Schema description title (Some ''array'') properties required minimum maximum enumValues format None)"
  by (simp add: Let_def)

lemma array_bridge_without_properties:
  "openAPISchemaToZod (Schema description title (Some ''array'') None required minimum maximum enumValues format items)
   = Inr (ZodArray (ZodObject [] None) (Some (string_or description (string_or title []))))"
  by (simp add: Let_def)

lemma parse_items_any_objects:
  "(\<forall>x \<in> set xs. \<exists>kvs. x = JObj kvs)
   \<Longrightarrow> parse_items (ZodObject [] None) xs = Inr (map (\<lambda>x. JObj []) xs)"
  by (induction xs) auto

text \<open>
  C8. The claim is that the item type of a bridged array is the object bridge over the
  item schema's properties, whose constraints are enforced on each element. On the code it
  is the object bridge over the array node's own \<open>properties\<close>: for the array schema of the
  repository's test, whose items require a string \<open>name\<close>, the bridge is an array of
  objects with the empty shape; it accepts elements that the item schema rejects, and its
  output has lost their fields.
\<close>

theorem array_items_not_enforced:
  "openAPISchemaToZod example_array_schema
     = Inr (ZodArray (ZodObject [] None) (Some ''An array of objects''))
   \<and> bridged_parse example_array_schema (JArr [JObj [(''name'', JNum 5)], JObj []])
     = Inr (Inr (JArr [JObj [], JObj []]))
   \<and> bridged_parse example_item_schema (JObj [(''name'', JNum 5)]) = Inr (Inl InvalidType)
   \<and> bridged_parse example_item_schema (JObj []) = Inr (Inl InvalidType)
   \<and> bridged_parse example_item_schema (JObj [(''name'', JStr ''Item 1'')])
     = Inr (Inr (JObj [(''name'', JStr ''Item 1'')]))"
  by (simp add: bridged_parse_def example_array_schema_def example_item_schema_def
        string_or_def prop_get_def has_property_def object_prototype_def)


section \<open>Properties of \<open>createAuthConfigFromEnv\<close>\<close>

lemma includes_hd: "str_includes s sub \<Longrightarrow> sub \<noteq> [] \<Longrightarrow> hd sub \<in> set s"
  by (induction s) (auto simp: startsWith_def neq_Nil_conv)

lemma decimal_digits: "c \<in> set (decimal n) \<Longrightarrow> 48 \<le> (of_char c :: nat) \<and> (of_char c :: nat) \<le> 57"
proof (induction n rule: decimal.induct)
  case (1 n)
  show ?case
  proof (cases "n < 10")
    case True
    with "1.prems" show ?thesis by (simp add: decimal.simps[of n])
  next
    case False
    with "1.prems" have "c \<in> set (decimal (n div 10)) \<or> c = char_of (48 + n mod 10)"
      by (auto simp: decimal.simps[of n])
    then show ?thesis
    proof
      assume "c \<in> set (decimal (n div 10))"
      with "1.IH" False show ?thesis by simp
    next
      assume c: "c = char_of (48 + n mod 10)"
      have "n mod 10 < 10" by simp
      then have "48 + n mod 10 < 256" by linarith
      then show ?thesis using c by simp
    qed
  qed
qed

lemma toLowerCase_digit:
  "48 \<le> (of_char c :: nat) \<and> (of_char c :: nat) \<le> 57 \<Longrightarrow> toLowerCase_char c = c"
  by (simp add: toLowerCase_char_def)

lemma decimal_not_api_key_name: "\<not> is_api_key_name (decimal n)"
proof
  assume "is_api_key_name (decimal n)"
  then have "CHR ''a'' \<in> set (toLowerCase (decimal n))"
    using includes_hd[of "toLowerCase (decimal n)" "''api-key''"]
          includes_hd[of "toLowerCase (decimal n)" "''apikey''"]
    by (auto simp: is_api_key_name_def)
  then obtain c where c: "c \<in> set (decimal n)" and a: "toLowerCase_char c = CHR ''a''"
    by (auto simp: toLowerCase_def)
  from decimal_digits[OF c] have d: "48 \<le> (of_char c :: nat) \<and> (of_char c :: nat) \<le> 57" .
  with a have "c = CHR ''a''" by (simp add: toLowerCase_digit)
  with d show False by simp
qed

lemma find_index_entries:
  "find (\<lambda>entry. is_api_key_name (fst entry)) (zip (map decimal ns) vs) = None"
proof -
  have "\<not> is_api_key_name (fst entry)" if "entry \<in> set (zip (map decimal ns) vs)" for entry
  proof -
    from that have "(fst entry, snd entry) \<in> set (zip (map decimal ns) vs)" by simp
    then have "fst entry \<in> set (map decimal ns)" by (rule set_zip_leftD)
    then show ?thesis by (auto simp: decimal_not_api_key_name)
  qed
  then show ?thesis by (force simp: find_None_iff)
qed

lemma config_from_headers_record:
  assumes "case js_or (obj_get hs ''Authorization'') (obj_get hs ''authorization'') of
             JStr s \<Rightarrow> True | other \<Rightarrow> \<not> truthy other"
  shows "config_from_headers base64_decode (JObj hs) =
           Inr (if startsWith (value_of (authorization_header hs)) ''Bearer ''
                then Some ((base_config BEARER_TOKEN)
                       \<lparr>ac_bearerToken := Some \<lparr>bt_token = drop 7 (value_of (authorization_header hs))\<rparr>\<rparr>)
                else (case find (\<lambda>entry. is_api_key_name (fst entry)) hs of
                        Some (name, val) \<Rightarrow>
                          Some ((base_config API_KEY)
                            \<lparr>ac_apiKey := Some \<lparr>ak_key = val, ak_headerName = Some name, ak_in = None\<rparr>\<rparr>)
                      | None \<Rightarrow>
                          if startsWith (value_of (authorization_header hs)) ''Basic ''
                          then Some (basic_auth_config base64_decode (value_of (authorization_header hs)))
                          else None))"
proof (cases "js_or (obj_get hs ''Authorization'') (obj_get hs ''authorization'')")
  case (JStr s)
  then show ?thesis
    by (cases "s = []")
       (auto simp: config_from_headers_def authorization_header_def value_of_def
          starts_with_if_set_def startsWith_def Let_def split: option.splits)
qed (use assms in \<open>auto simp: config_from_headers_def authorization_header_def value_of_def
          starts_with_if_set_def startsWith_def Let_def split: option.splits\<close>)

lemma config_from_headers_other:
  assumes "\<forall>hs. parsedHeaders \<noteq> JObj hs"
  shows "config_from_headers base64_decode parsedHeaders = Inr None
       \<or> (\<exists>exn. config_from_headers base64_decode parsedHeaders = Inl exn)"
  using assms
  by (cases parsedHeaders)
     (auto simp: config_from_headers_def starts_with_if_set_def js_or_def find_index_entries Let_def)

lemma split_on_no_separator: "count_list s sep = 0 \<Longrightarrow> split_on sep s = [s]"
  by (induction s) (auto split: if_splits list.splits)

lemma split_on_one_separator:
  "count_list s sep = 1
   \<Longrightarrow> split_on sep s = [takeWhile (\<lambda>c. c \<noteq> sep) s, drop 1 (dropWhile (\<lambda>c. c \<noteq> sep) s)]"
  by (induction s) (auto simp: split_on_no_separator split: if_splits list.splits)

lemma takeWhile_no_separator: "sep \<notin> set s \<Longrightarrow> takeWhile (\<lambda>c. c \<noteq> sep) s = s"
  by (induction s) auto

lemma basic_auth_one_colon:
  assumes "count_list (base64_decode (drop 6 authHeader)) CHR '':'' \<le> 1"
  shows "basic_auth_config base64_decode authHeader = spec_basic_auth base64_decode authHeader"
proof (cases "count_list (base64_decode (drop 6 authHeader)) CHR '':'' = 0")
  case True
  then have no: "CHR '':'' \<notin> set (base64_decode (drop 6 authHeader))"
    by (simp add: count_list_0_iff)
  with True show ?thesis
    by (simp add: basic_auth_config_def spec_basic_auth_def split_on_no_separator
          takeWhile_no_separator)
next
  case False
  with assms have one: "count_list (base64_decode (drop 6 authHeader)) CHR '':'' = 1" by simp
  then have "CHR '':'' \<in> set (base64_decode (drop 6 authHeader))"
    using count_list_0_iff[of "base64_decode (drop 6 authHeader)" "CHR '':''"] by auto
  with one show ?thesis
    by (simp add: basic_auth_config_def spec_basic_auth_def split_on_one_separator)
qed

text \<open>
  C9, as amended. Whenever the Authorization entry of the header JSON, if there is one,
  is a string, and the credentials decoded from a \<open>Basic \<close> header hold at most one colon,
  \<open>createAuthConfigFromEnv\<close> resolves the environment with the stated precedence:
  certificate when both paths are set; else OAuth2 when client id, secret and token URL
  are set; else, from the header record, bearer token when the Authorization header
  starts with \<open>Bearer \<close>, else API key with the name and value of the first header whose
  lower-cased name contains \<open>api-key\<close> or \<open>apikey\<close>, else basic auth with the user name and
  password of the decoded \<open>username:password\<close> when the Authorization header starts with
  \<open>Basic \<close>; and none otherwise, also when the header JSON is malformed or not an object.
\<close>

theorem createAuthConfigFromEnv_precedence:
  assumes "\<forall>hs. header_record JSON_parse env = Some hs \<longrightarrow>
             (case js_or (obj_get hs ''Authorization'') (obj_get hs ''authorization'') of
                JStr s \<Rightarrow> True | other \<Rightarrow> \<not> truthy other)"
    and "\<forall>hs authHeader.
             header_record JSON_parse env = Some hs
             \<and> authorization_header hs = Some authHeader \<and> startsWith authHeader ''Basic ''
             \<longrightarrow> count_list (base64_decode (drop 6 authHeader)) CHR '':'' \<le> 1"
  shows "createAuthConfigFromEnv JSON_parse base64_decode env
           = spec_auth_config JSON_parse base64_decode env"
proof (cases "is_set (OPENAPI_SPEC_HEADERS env)")
  case False
  then show ?thesis
    by (simp add: createAuthConfigFromEnv_def spec_auth_config_def header_record_def)
next
  case True
  show ?thesis
  proof (cases "JSON_parse (value_of (OPENAPI_SPEC_HEADERS env))")
    case None
    with True show ?thesis
      by (simp add: createAuthConfigFromEnv_def spec_auth_config_def header_record_def)
  next
    case (Some parsedHeaders)
    show ?thesis
    proof (cases "\<exists>hs. parsedHeaders = JObj hs")
      case True
      then obtain hs where hs: "parsedHeaders = JObj hs" by blast
      with Some \<open>is_set (OPENAPI_SPEC_HEADERS env)\<close>
      have rec: "header_record JSON_parse env = Some hs"
        by (simp add: header_record_def)
      with assms(1) have "case js_or (obj_get hs ''Authorization'') (obj_get hs ''authorization'') of
                JStr s \<Rightarrow> True | other \<Rightarrow> \<not> truthy other" by blast
      note code = config_from_headers_record[OF this, of base64_decode]
      have basic: "basic_auth_config base64_decode (value_of (authorization_header hs))
                     = spec_basic_auth base64_decode (value_of (authorization_header hs))"
        if st: "startsWith (value_of (authorization_header hs)) ''Basic ''"
      proof (cases "authorization_header hs")
        case None
        with st show ?thesis by (simp add: value_of_def startsWith_def)
      next
        case (Some authHeader)
        with st have "startsWith authHeader ''Basic ''" by (simp add: value_of_def)
        with assms(2) rec Some
        have "count_list (base64_decode (drop 6 authHeader)) CHR '':'' \<le> 1" by blast
        then show ?thesis
          using Some by (simp add: value_of_def basic_auth_one_colon)
      qed
      show ?thesis
        using Some hs rec \<open>is_set (OPENAPI_SPEC_HEADERS env)\<close> code basic
        by (auto simp: createAuthConfigFromEnv_def spec_auth_config_def split: option.splits)
    next
      case False
      then have no: "\<forall>hs. parsedHeaders \<noteq> JObj hs" by blast
      with Some \<open>is_set (OPENAPI_SPEC_HEADERS env)\<close>
      have rec: "header_record JSON_parse env = None"
        by (cases parsedHeaders) (simp_all add: header_record_def)
      from config_from_headers_other[OF no, of base64_decode]
      show ?thesis
        using Some rec \<open>is_set (OPENAPI_SPEC_HEADERS env)\<close>
        by (auto simp: createAuthConfigFromEnv_def spec_auth_config_def)
    qed
  qed
qed

lemma example_header_names:
  "is_api_key_name ''X-API-Key''" "\<not> is_api_key_name ''Authorization''"
  "\<not> is_api_key_name ''authorization''" "\<not> is_api_key_name ''Accept''"
  by code_simp+

theorem createAuthConfigFromEnv_precedence_witness:
  \<open>createAuthConfigFromEnv example_JSON_parse example_base64_decode
     ((headers_env ''{"Authorization":"Bearer abc123"}'')
        \<lparr>OPENAPI_CERT_PATH := Some ''/path/to/cert.pem'', OPENAPI_KEY_PATH := Some ''/path/to/key.pem'',
         OPENAPI_OAUTH_CLIENT_ID := Some ''client123'', OPENAPI_OAUTH_CLIENT_SECRET := Some ''secret456'',
         OPENAPI_OAUTH_TOKEN_URL := Some ''https://auth.example.com/token''\<rparr>)
     = (base_config CERTIFICATE)
         \<lparr>ac_certificate := Some \<lparr>ce_certPath = ''/path/to/cert.pem'', ce_keyPath = ''/path/to/key.pem'',
                                  ce_passphrase = None\<rparr>\<rparr>
   \<and> createAuthConfigFromEnv example_JSON_parse example_base64_decode
     ((headers_env ''{"Authorization":"Bearer abc123"}'')
        \<lparr>OPENAPI_CERT_PATH := Some ''/path/to/cert.pem'',
         OPENAPI_OAUTH_CLIENT_ID := Some ''client123'', OPENAPI_OAUTH_CLIENT_SECRET := Some ''secret456'',
         OPENAPI_OAUTH_TOKEN_URL := Some ''https://auth.example.com/token'',
         OPENAPI_OAUTH_SCOPES := Some ''read,write''\<rparr>)
     = (base_config OAUTH2)
         \<lparr>ac_oauth2 := Some \<lparr>oa_clientId = ''client123'', oa_clientSecret = ''secret456'',
                             oa_tokenUrl = ''https://auth.example.com/token'',
                             oa_scopes = Some [''read'', ''write''], oa_additionalParams = None\<rparr>\<rparr>
   \<and> createAuthConfigFromEnv example_JSON_parse example_base64_decode
       (headers_env ''{"Authorization":"Bearer abc123"}'')
     = (base_config BEARER_TOKEN)\<lparr>ac_bearerToken := Some \<lparr>bt_token = ''abc123''\<rparr>\<rparr>
   \<and> createAuthConfigFromEnv example_JSON_parse example_base64_decode
       (headers_env ''{"X-API-Key":"test-api-key","Authorization":"Basic dXNlcjpwYXNz"}'')
     = (base_config API_KEY)
         \<lparr>ac_apiKey := Some \<lparr>ak_key = JStr ''test-api-key'', ak_headerName = Some ''X-API-Key'',
                             ak_in = None\<rparr>\<rparr>
   \<and> createAuthConfigFromEnv example_JSON_parse example_base64_decode
       (headers_env ''{"authorization":"Basic dXNlcjpwYXNz"}'')
     = (base_config BASIC_AUTH)
         \<lparr>ac_basicAuth := Some \<lparr>ba_username = ''user'', ba_password = Some ''pass''\<rparr>\<rparr>
   \<and> createAuthConfigFromEnv example_JSON_parse example_base64_decode
       (headers_env ''{"Accept":"text/plain"}'')
     = base_config NONE
   \<and> createAuthConfigFromEnv example_JSON_parse example_base64_decode
       (headers_env ''{not json'')
     = base_config NONE
   \<and> createAuthConfigFromEnv example_JSON_parse example_base64_decode empty_env
     = base_config NONE\<close>
  using createAuthConfigFromEnv_precedence
          [of example_JSON_parse
              \<open>(headers_env ''{"Authorization":"Bearer abc123"}'')
                 \<lparr>OPENAPI_CERT_PATH := Some ''/path/to/cert.pem'', OPENAPI_KEY_PATH := Some ''/path/to/key.pem'',
                  OPENAPI_OAUTH_CLIENT_ID := Some ''client123'', OPENAPI_OAUTH_CLIENT_SECRET := Some ''secret456'',
                  OPENAPI_OAUTH_TOKEN_URL := Some ''https://auth.example.com/token''\<rparr>\<close>
              example_base64_decode]
        createAuthConfigFromEnv_precedence
          [of example_JSON_parse
              \<open>(headers_env ''{"Authorization":"Bearer abc123"}'')
                 \<lparr>OPENAPI_CERT_PATH := Some ''/path/to/cert.pem'',
                  OPENAPI_OAUTH_CLIENT_ID := Some ''client123'', OPENAPI_OAUTH_CLIENT_SECRET := Some ''secret456'',
                  OPENAPI_OAUTH_TOKEN_URL := Some ''https://auth.example.com/token'',
                  OPENAPI_OAUTH_SCOPES := Some ''read,write''\<rparr>\<close>
              example_base64_decode]
        createAuthConfigFromEnv_precedence
          [of example_JSON_parse \<open>headers_env ''{"Authorization":"Bearer abc123"}''\<close>
              example_base64_decode]
        createAuthConfigFromEnv_precedence
          [of example_JSON_parse
              \<open>headers_env ''{"X-API-Key":"test-api-key","Authorization":"Basic dXNlcjpwYXNz"}''\<close>
              example_base64_decode]
        createAuthConfigFromEnv_precedence
          [of example_JSON_parse \<open>headers_env ''{"authorization":"Basic dXNlcjpwYXNz"}''\<close>
              example_base64_decode]
        createAuthConfigFromEnv_precedence
          [of example_JSON_parse \<open>headers_env ''{"Accept":"text/plain"}''\<close> example_base64_decode]
        createAuthConfigFromEnv_precedence
          [of example_JSON_parse \<open>headers_env ''{not json''\<close> example_base64_decode]
        createAuthConfigFromEnv_precedence
          [of example_JSON_parse empty_env example_base64_decode]
  by (simp add: spec_auth_config_def header_record_def authorization_header_def
        example_JSON_parse_def example_base64_decode_def empty_env_def headers_env_def
        is_set_def value_of_def js_or_def obj_get_def startsWith_def example_header_names
        spec_basic_auth_def base_config_def)

text \<open>
  The claim C9 as stated fails twice. With the header JSON
  \<open>{"Authorization":123,"X-API-Key":"test-api-key"}\<close> the Authorization header does not start
  with \<open>Bearer \<close> and a header name contains \<open>api-key\<close>, so the stated precedence gives the
  API key; the code calls \<open>startsWith\<close> on the number, which throws, and the \<open>catch\<close> clause
  leads to none. With credentials that decode to \<open>user:pa:ss\<close> the code keeps the first
  two parts of the split and cuts the password to \<open>pa\<close>.
\<close>

theorem createAuthConfigFromEnv_claim_counterexample:
  \<open>createAuthConfigFromEnv example_JSON_parse example_base64_decode
       (headers_env ''{"Authorization":123,"X-API-Key":"test-api-key"}'')
     = base_config NONE
   \<and> spec_auth_config example_JSON_parse example_base64_decode
       (headers_env ''{"Authorization":123,"X-API-Key":"test-api-key"}'')
     = (base_config API_KEY)
         \<lparr>ac_apiKey := Some \<lparr>ak_key = JStr ''test-api-key'', ak_headerName = Some ''X-API-Key'',
                             ak_in = None\<rparr>\<rparr>
   \<and> createAuthConfigFromEnv example_JSON_parse example_base64_decode
       (headers_env ''{"Authorization":"Basic dXNlcjpwYTpzcw=="}'')
     = (base_config BASIC_AUTH)
         \<lparr>ac_basicAuth := Some \<lparr>ba_username = ''user'', ba_password = Some ''pa''\<rparr>\<rparr>
   \<and> spec_auth_config example_JSON_parse example_base64_decode
       (headers_env ''{"Authorization":"Basic dXNlcjpwYTpzcw=="}'')
     = (base_config BASIC_AUTH)
         \<lparr>ac_basicAuth := Some \<lparr>ba_username = ''user'', ba_password = Some ''pa:ss''\<rparr>\<rparr>\<close>
  by (simp add: createAuthConfigFromEnv_def config_from_headers_def starts_with_if_set_def
        spec_auth_config_def header_record_def authorization_header_def
        example_JSON_parse_def example_base64_decode_def empty_env_def headers_env_def
        is_set_def value_of_def js_or_def obj_get_def startsWith_def example_header_names
        basic_auth_config_def spec_basic_auth_def base_config_def Let_def)

end
